theory Spec2Isabelle
  imports Complex_Main "HOL-Library.Multiset"
begin

section \<open>Values, errors and the cursor protocol\<close>

text \<open>
  JavaScript values as far as the pipeline code inspects them. \<open>Number\<close> carries the
  finite numbers (NaN and the infinities are not modelled), \<open>Object\<close> is a plain object
  with its fields in insertion order, \<open>Array\<close> an array.
\<close>

datatype jsval =
    Undefined
  | Null
  | Bool bool
  | Number rat
  | String string
  | Object "(string \<times> jsval) list"
  | Array "jsval list"

text \<open>
  What the code throws: \<open>throw new Error(msg)\<close>, a failed chai assertion
  (\<open>assert.isString\<close>, \<open>assert.isNumber\<close>, ...) and the language's TypeError. \<open>NoCurrent\<close> stands for reading
  \<open>getCurrent()\<close> outside the cursor contract (before the first successful
  \<open>moveNext()\<close>), where the JavaScript yields \<open>undefined\<close> and every consumer of this
  code base fails on indexing it.
\<close>

datatype error =
    Error string
  | AssertionError string
  | TypeError string
  | NoCurrent

text \<open>
  The outcome of a call: \<open>None\<close> when the call does not return (a loop that runs
  forever), \<open>Some (Inl e)\<close> when it throws \<open>e\<close>, \<open>Some (Inr x)\<close> when it returns \<open>x\<close>.
\<close>

type_synonym 'a result = "(error + 'a) option"

abbreviation Return :: "'a \<Rightarrow> 'a result" where
  "Return x \<equiv> Some (Inr x)"

abbreviation Throw :: "error \<Rightarrow> 'a result" where
  "Throw e \<equiv> Some (Inl e)"

definition bindR :: "'a result \<Rightarrow> ('a \<Rightarrow> 'b result) \<Rightarrow> 'b result" where
  "bindR m f = (case m of None \<Rightarrow> None | Some (Inl e) \<Rightarrow> Some (Inl e) | Some (Inr x) \<Rightarrow> f x)"

text \<open>
  An iterator object \<open>{ moveNext: ..., getCurrent: ... }\<close>. The object's hidden
  variables change when \<open>moveNext()\<close> runs, so \<open>moveNext\<close> returns the answer together
  with the object as it is afterwards; \<open>getCurrent()\<close> only reads.
\<close>

codatatype 'a iterator =
  Iterator (moveNext: "(bool \<times> 'a iterator) result") (getCurrent: "error + 'a")

text \<open>
  An iterable is an object with one method \<open>getIterator()\<close>; the model keeps the outcome
  of that call.
\<close>

type_synonym 'a iterable = "'a iterator result"

section \<open>Iterators\<close>

text \<open>
  Of the iterators only \<open>iterators/skip-while.js\<close> is among the sources at hand. The
  others are required by \<open>series.js\<close> and \<open>dataframe.js\<close> from files that are not;
  they are modelled from the specification's description of each cursor.
\<close>

text \<open>
  Modelled from the spec: \<open>iterators/empty.js\<close> is missing. ``Empty: cursor whose first
  advance() returns false.''
\<close>

primcorec EmptyIterator :: "'a iterator" where
  "moveNext EmptyIterator = Some (Inr (False, EmptyIterator))"
| "getCurrent EmptyIterator = Inl NoCurrent"

text \<open>
  Modelled from the spec: \<open>iterators/array.js\<close> is missing. ``Array-of-T: cursor stepping
  through an indexable buffer.'' \<open>i\<close> counts the calls of \<open>moveNext\<close> so far; the
  current element is \<open>arr[i - 1]\<close>.
\<close>

primcorec ArrayIterator_at :: "'a list \<Rightarrow> nat \<Rightarrow> 'a iterator" where
  "moveNext (ArrayIterator_at arr i) = Some (Inr (i < length arr, ArrayIterator_at arr (i + 1)))"
| "getCurrent (ArrayIterator_at arr i) =
     (if 0 < i \<and> i \<le> length arr then Inr (arr ! (i - 1)) else Inl NoCurrent)"

definition ArrayIterator :: "'a list \<Rightarrow> 'a iterator" where
  "ArrayIterator arr = ArrayIterator_at arr 0"

text \<open>
  Modelled from the spec: \<open>iterators/count.js\<close> is missing. ``Count: infinite sequence
  0, 1, 2, ...; used as the default auto-index.''
\<close>

primcorec CountIterator_at :: "nat \<Rightarrow> jsval iterator" where
  "moveNext (CountIterator_at i) = Some (Inr (True, CountIterator_at (i + 1)))"
| "getCurrent (CountIterator_at i) =
     (if 0 < i then Inr (Number (of_nat (i - 1))) else Inl NoCurrent)"

definition CountIterator :: "jsval iterator" where
  "CountIterator = CountIterator_at 0"

text \<open>
  Modelled from the spec: \<open>iterators/pair.js\<close> is missing. ``Pair(indexIter, valuesIter):
  zips two parallel cursors into pairs; terminates when either side exhausts.''
\<close>

primcorec PairIterator :: "'a iterator \<Rightarrow> 'b iterator \<Rightarrow> ('a \<times> 'b) iterator" where
  "moveNext (PairIterator it1 it2) =
     (case moveNext it1 of
        None \<Rightarrow> None
      | Some (Inl e) \<Rightarrow> Some (Inl e)
      | Some (Inr (moved1, it1')) \<Rightarrow>
          if \<not> moved1 then Some (Inr (False, PairIterator it1' it2))
          else (case moveNext it2 of
                  None \<Rightarrow> None
                | Some (Inl e) \<Rightarrow> Some (Inl e)
                | Some (Inr (moved2, it2')) \<Rightarrow> Some (Inr (moved2, PairIterator it1' it2'))))"
| "getCurrent (PairIterator it1 it2) =
     (case getCurrent it1 of
        Inl e \<Rightarrow> Inl e
      | Inr a \<Rightarrow> (case getCurrent it2 of Inl e \<Rightarrow> Inl e | Inr b \<Rightarrow> Inr (a, b)))"

text \<open>
  Modelled from the spec: \<open>iterators/select.js\<close> is missing. The one-to-one transformer
  (``SelectValue'', ``SelectPair''): the cursor advances with its source and its current
  element is the selector's result on the source's current element.
\<close>

primcorec SelectIterator :: "'a iterator \<Rightarrow> ('a \<Rightarrow> error + 'b) \<Rightarrow> 'b iterator" where
  "moveNext (SelectIterator iterator selector) =
     (case moveNext iterator of
        None \<Rightarrow> None
      | Some (Inl e) \<Rightarrow> Some (Inl e)
      | Some (Inr (moved, iterator')) \<Rightarrow> Some (Inr (moved, SelectIterator iterator' selector)))"
| "getCurrent (SelectIterator iterator selector) =
     (case getCurrent iterator of Inl e \<Rightarrow> Inl e | Inr x \<Rightarrow> selector x)"

text \<open>
  Modelled from the spec: \<open>iterators/skip.js\<close> is missing. ``Skip(n): discards the first
  n pairs, then passes through.'' \<open>skip_discard\<close> is the first \<open>moveNext\<close>, which
  advances the source past \<open>n\<close> elements and then once moved.
\<close>

fun skip_discard :: "'a iterator \<Rightarrow> nat \<Rightarrow> (bool \<times> 'a iterator) result" where
  "skip_discard iterator 0 = moveNext iterator"
| "skip_discard iterator (Suc n) =
     (case moveNext iterator of
        None \<Rightarrow> None
      | Some (Inl e) \<Rightarrow> Some (Inl e)
      | Some (Inr (moved, iterator')) \<Rightarrow>
          if moved then skip_discard iterator' n else Some (Inr (False, iterator')))"

primcorec SkipIterator :: "'a iterator \<Rightarrow> nat \<Rightarrow> 'a iterator" where
  "moveNext (SkipIterator iterator n) =
     map_option (map_sum id (map_prod id (\<lambda>iterator'. SkipIterator iterator' 0)))
       (skip_discard iterator n)"
| "getCurrent (SkipIterator iterator n) = getCurrent iterator"

text \<open>
  Modelled from the spec: \<open>iterators/take.js\<close> is missing. ``Take(n): symmetric to
  Skip'': passes the first \<open>n\<close> pairs through, then reports exhaustion.
\<close>

primcorec TakeIterator :: "'a iterator \<Rightarrow> nat \<Rightarrow> 'a iterator" where
  "moveNext (TakeIterator iterator n) =
     (if n = 0 then Some (Inr (False, TakeIterator iterator 0))
      else (case moveNext iterator of
              None \<Rightarrow> None
            | Some (Inl e) \<Rightarrow> Some (Inl e)
            | Some (Inr (moved, iterator')) \<Rightarrow> Some (Inr (moved, TakeIterator iterator' (n - 1)))))"
| "getCurrent (TakeIterator iterator n) = getCurrent iterator"

subsection \<open>SkipWhileIterator (iterators/skip-while.js)\<close>

text \<open>
  The \<open>for (;;)\<close> loop of \<open>moveNext\<close>. It returns the answer, the source iterator as
  it is afterwards and the variable \<open>skipped\<close>. The predicate is a caller's function: it
  may throw, and what it returns is read for truthiness.
\<close>

partial_function (option) SkipWhileIterator_loop ::
  "'a iterator \<Rightarrow> ('a \<Rightarrow> error + bool) \<Rightarrow> bool \<Rightarrow> (error + bool \<times> 'a iterator \<times> bool) option" where
  "SkipWhileIterator_loop iterator predicate skipped =
     (case moveNext iterator of
        None \<Rightarrow> None
      | Some (Inl e) \<Rightarrow> Some (Inl e)
      | Some (Inr (moved, iterator')) \<Rightarrow>
          if \<not> moved then Some (Inr (False, iterator', skipped))
          else if skipped then Some (Inr (True, iterator', skipped))
          else (case getCurrent iterator' of
                  Inl e \<Rightarrow> Some (Inl e)
                | Inr cur \<Rightarrow>
                    (case predicate cur of
                       Inl e \<Rightarrow> Some (Inl e)
                     | Inr holds \<Rightarrow>
                         if \<not> holds then Some (Inr (True, iterator', True))
                         else SkipWhileIterator_loop iterator' predicate skipped)))"

primcorec SkipWhileIterator_st :: "('a \<Rightarrow> error + bool) \<Rightarrow> 'a iterator \<times> bool \<Rightarrow> 'a iterator" where
  "moveNext (SkipWhileIterator_st predicate st) =
     map_option (map_sum id (map_prod id (SkipWhileIterator_st predicate)))
       (SkipWhileIterator_loop (fst st) predicate (snd st))"
| "getCurrent (SkipWhileIterator_st predicate st) = getCurrent (fst st)"

text \<open>\<open>var skipped = false;\<close> when the iterator is created.\<close>

definition SkipWhileIterator :: "'a iterator \<Rightarrow> ('a \<Rightarrow> error + bool) \<Rightarrow> 'a iterator" where
  "SkipWhileIterator iterator predicate = SkipWhileIterator_st predicate (iterator, False)"

section \<open>Iterables\<close>

text \<open>
  Modelled from the spec: the files under \<open>iterables/\<close> are missing. ``Iterable: a
  re-startable producer: asking it for a cursor yields a fresh cursor positioned before the
  first pair.'' Each iterable's \<open>getIterator()\<close> asks its source for a cursor and wraps
  it in the iterator of the same name.
\<close>

definition EmptyIterable :: "'a iterable" where
  "EmptyIterable = Return EmptyIterator"

definition ArrayIterable :: "'a list \<Rightarrow> 'a iterable" where
  "ArrayIterable arr = Return (ArrayIterator arr)"

definition CountIterable :: "jsval iterable" where
  "CountIterable = Return CountIterator"

definition PairsIterable :: "'a iterable \<Rightarrow> 'b iterable \<Rightarrow> ('a \<times> 'b) iterable" where
  "PairsIterable indexIterable valuesIterable =
     bindR indexIterable (\<lambda>it1. bindR valuesIterable (\<lambda>it2. Return (PairIterator it1 it2)))"

definition SkipIterable :: "'a iterable \<Rightarrow> nat \<Rightarrow> 'a iterable" where
  "SkipIterable iterable n = bindR iterable (\<lambda>it. Return (SkipIterator it n))"

definition TakeIterable :: "'a iterable \<Rightarrow> nat \<Rightarrow> 'a iterable" where
  "TakeIterable iterable n = bindR iterable (\<lambda>it. Return (TakeIterator it n))"

definition SkipWhileIterable :: "'a iterable \<Rightarrow> ('a \<Rightarrow> error + bool) \<Rightarrow> 'a iterable" where
  "SkipWhileIterable iterable predicate =
     bindR iterable (\<lambda>it. Return (SkipWhileIterator it predicate))"

text \<open>
  ``SelectValue(fn): replaces value with fn(value, index); index unchanged.''
\<close>

definition SelectValuesIterable ::
  "('i \<times> 'v) iterable \<Rightarrow> ('v \<Rightarrow> 'i \<Rightarrow> error + 'w) \<Rightarrow> ('i \<times> 'w) iterable" where
  "SelectValuesIterable iterable selector =
     bindR iterable (\<lambda>it. Return (SelectIterator it
       (\<lambda>pair. case selector (snd pair) (fst pair) of
                 Inl e \<Rightarrow> Inl e
               | Inr newValue \<Rightarrow> Inr (fst pair, newValue))))"

section \<open>Series (series.js)\<close>

text \<open>
  A Series instance holds \<open>__iterable\<close>; its pairs are \<open>[index, value]\<close>. The
  constructor's \<open>config\<close> is an object with the optional fields \<open>__iterable\<close>,
  \<open>values\<close> and \<open>index\<close>; the last two are arrays here (their function and
  iterable forms are not modelled).
\<close>

record 'v Series =
  iterable :: "(jsval \<times> 'v) iterable"

record 'v Series_config =
  config_iterable :: "(jsval \<times> 'v) iterable option"
  config_values :: "'v list option"
  config_index :: "jsval list option"

definition createIndexIterable :: "jsval list option \<Rightarrow> jsval iterable" where
  "createIndexIterable index' =
     (case index' of None \<Rightarrow> CountIterable | Some arr \<Rightarrow> ArrayIterable arr)"

definition createValuesIterable :: "'v list option \<Rightarrow> 'v iterable" where
  "createValuesIterable values' =
     (case values' of None \<Rightarrow> EmptyIterable | Some arr \<Rightarrow> ArrayIterable arr)"

definition new_Series :: "'v Series_config option \<Rightarrow> 'v Series" where
  "new_Series config =
     (case config of
        None \<Rightarrow> \<lparr>iterable = EmptyIterable\<rparr>
      | Some c \<Rightarrow>
          (case config_iterable c of
             Some it \<Rightarrow> \<lparr>iterable = it\<rparr>
           | None \<Rightarrow> \<lparr>iterable = PairsIterable (createIndexIterable (config_index c))
                                     (createValuesIterable (config_values c))\<rparr>))"

text \<open>\<open>new self.Constructor({ __iterable: it })\<close>.\<close>

definition from_iterable :: "(jsval \<times> 'v) iterable \<Rightarrow> 'v Series" where
  "from_iterable it = new_Series (Some \<lparr>config_iterable = Some it, config_values = None, config_index = None\<rparr>)"

definition Series_getIterator :: "'v Series \<Rightarrow> (jsval \<times> 'v) iterable" where
  "Series_getIterator self = iterable self"

text \<open>\<open>numRows\<close> is a natural number in the model, so \<open>assert.isNumber\<close> holds.\<close>

definition Series_skip :: "'v Series \<Rightarrow> nat \<Rightarrow> 'v Series" where
  "Series_skip self numRows = from_iterable (SkipIterable (Series_getIterator self) numRows)"

definition Series_take :: "'v Series \<Rightarrow> nat \<Rightarrow> 'v Series" where
  "Series_take self numRows = from_iterable (TakeIterable (Series_getIterator self) numRows)"

definition Series_skipWhile :: "'v Series \<Rightarrow> ('v \<Rightarrow> error + bool) \<Rightarrow> 'v Series" where
  "Series_skipWhile self predicate =
     from_iterable (SkipWhileIterable (Series_getIterator self) (\<lambda>pair. predicate (snd pair)))"

definition Series_select :: "'v Series \<Rightarrow> ('v \<Rightarrow> jsval \<Rightarrow> error + 'w) \<Rightarrow> 'w Series" where
  "Series_select self selector =
     from_iterable (SelectValuesIterable (Series_getIterator self) selector)"

subsection \<open>Terminal operations\<close>

partial_function (option) toValues_loop ::
  "(jsval \<times> jsval) iterator \<Rightarrow> jsval list \<Rightarrow> (error + jsval list) option" where
  "toValues_loop iterator vals =
     (case moveNext iterator of
        None \<Rightarrow> None
      | Some (Inl e) \<Rightarrow> Some (Inl e)
      | Some (Inr (moved, iterator')) \<Rightarrow>
          if \<not> moved then Some (Inr vals)
          else (case getCurrent iterator' of
                  Inl e \<Rightarrow> Some (Inl e)
                | Inr pair \<Rightarrow>
                    toValues_loop iterator'
                      (if snd pair \<noteq> Undefined then vals @ [snd pair] else vals)))"

definition Series_toValues :: "jsval Series \<Rightarrow> jsval list result" where
  "Series_toValues self = bindR (Series_getIterator self) (\<lambda>iterator. toValues_loop iterator [])"

partial_function (option) toPairs_loop ::
  "(jsval \<times> jsval) iterator \<Rightarrow> (jsval \<times> jsval) list \<Rightarrow> (error + (jsval \<times> jsval) list) option" where
  "toPairs_loop iterator pairs =
     (case moveNext iterator of
        None \<Rightarrow> None
      | Some (Inl e) \<Rightarrow> Some (Inl e)
      | Some (Inr (moved, iterator')) \<Rightarrow>
          if \<not> moved then Some (Inr pairs)
          else (case getCurrent iterator' of
                  Inl e \<Rightarrow> Some (Inl e)
                | Inr pair \<Rightarrow>
                    toPairs_loop iterator'
                      (if snd pair \<noteq> Undefined then pairs @ [pair] else pairs)))"

definition Series_toPairs :: "jsval Series \<Rightarrow> (jsval \<times> jsval) list result" where
  "Series_toPairs self = bindR (Series_getIterator self) (\<lambda>iterator. toPairs_loop iterator [])"

partial_function (option) count_loop :: "'a iterator \<Rightarrow> nat \<Rightarrow> (error + nat) option" where
  "count_loop iterator tally =
     (case moveNext iterator of
        None \<Rightarrow> None
      | Some (Inl e) \<Rightarrow> Some (Inl e)
      | Some (Inr (moved, iterator')) \<Rightarrow>
          if \<not> moved then Some (Inr tally) else count_loop iterator' (tally + 1))"

definition Series_count :: "'v Series \<Rightarrow> nat result" where
  "Series_count self = bindR (Series_getIterator self) (\<lambda>iterator. count_loop iterator 0)"

definition Series_first :: "'v Series \<Rightarrow> 'v result" where
  "Series_first self =
     bindR (Series_getIterator self) (\<lambda>iterator.
       bindR (moveNext iterator) (\<lambda>(moved, iterator').
         if \<not> moved then Throw (Error ''No values in Series.'')
         else (case getCurrent iterator' of Inl e \<Rightarrow> Throw e | Inr pair \<Rightarrow> Return (snd pair))))"

definition Series_firstPair :: "'v Series \<Rightarrow> (jsval \<times> 'v) result" where
  "Series_firstPair self =
     bindR (Series_getIterator self) (\<lambda>iterator.
       bindR (moveNext iterator) (\<lambda>(moved, iterator').
         if \<not> moved then Throw (Error ''No values in Series.'')
         else (case getCurrent iterator' of Inl e \<Rightarrow> Throw e | Inr pair \<Rightarrow> Return pair)))"

text \<open>\<open>while (iterator.moveNext()) { ; }\<close>: the iterator after it reported exhaustion.\<close>

partial_function (option) exhaust_loop :: "'a iterator \<Rightarrow> (error + 'a iterator) option" where
  "exhaust_loop iterator =
     (case moveNext iterator of
        None \<Rightarrow> None
      | Some (Inl e) \<Rightarrow> Some (Inl e)
      | Some (Inr (moved, iterator')) \<Rightarrow>
          if \<not> moved then Some (Inr iterator') else exhaust_loop iterator')"

definition Series_last :: "'v Series \<Rightarrow> 'v result" where
  "Series_last self =
     bindR (Series_getIterator self) (\<lambda>iterator.
       bindR (moveNext iterator) (\<lambda>(moved, iterator').
         if \<not> moved then Throw (Error ''No values in Series.'')
         else bindR (exhaust_loop iterator') (\<lambda>iterator''.
           case getCurrent iterator'' of Inl e \<Rightarrow> Throw e | Inr pair \<Rightarrow> Return (snd pair))))"

definition Series_lastPair :: "'v Series \<Rightarrow> (jsval \<times> 'v) result" where
  "Series_lastPair self =
     bindR (Series_getIterator self) (\<lambda>iterator.
       bindR (moveNext iterator) (\<lambda>(moved, iterator').
         if \<not> moved then Throw (Error ''No values in Series.'')
         else bindR (exhaust_loop iterator') (\<lambda>iterator''.
           case getCurrent iterator'' of Inl e \<Rightarrow> Throw e | Inr pair \<Rightarrow> Return pair)))"

partial_function (option) none_loop ::
  "(jsval \<times> 'v) iterator \<Rightarrow> ('v \<Rightarrow> error + bool) \<Rightarrow> (error + bool) option" where
  "none_loop iterator predicate =
     (case moveNext iterator of
        None \<Rightarrow> None
      | Some (Inl e) \<Rightarrow> Some (Inl e)
      | Some (Inr (moved, iterator')) \<Rightarrow>
          if \<not> moved then Some (Inr True)
          else (case getCurrent iterator' of
                  Inl e \<Rightarrow> Some (Inl e)
                | Inr pair \<Rightarrow>
                    (case predicate (snd pair) of
                       Inl e \<Rightarrow> Some (Inl e)
                     | Inr holds \<Rightarrow>
                         if holds then Some (Inr False) else none_loop iterator' predicate)))"

definition Series_none :: "'v Series \<Rightarrow> ('v \<Rightarrow> error + bool) option \<Rightarrow> bool result" where
  "Series_none self predicate =
     bindR (Series_getIterator self) (\<lambda>iterator.
       case predicate of
         None \<Rightarrow> bindR (moveNext iterator) (\<lambda>(moved, iterator'). Return (\<not> moved))
       | Some p \<Rightarrow> none_loop iterator p)"

subsection \<open>Aggregation\<close>

text \<open>
  \<open>aggregate(seedOrSelector, selector)\<close> is called in three shapes: with a reducer only,
  with a seed and a reducer, and with a seed only (which fails the assertion on
  \<open>selector\<close>). A reducer is a caller's function and may throw.
\<close>

datatype aggregate_args =
    Selector "jsval \<Rightarrow> jsval \<Rightarrow> error + jsval"
  | Seed_Selector jsval "jsval \<Rightarrow> jsval \<Rightarrow> error + jsval"
  | Seed jsval

partial_function (option) aggregate_loop ::
  "(jsval \<times> jsval) iterator \<Rightarrow> jsval \<Rightarrow> (jsval \<Rightarrow> jsval \<Rightarrow> error + jsval) \<Rightarrow> (error + jsval) option" where
  "aggregate_loop it working selector =
     (case moveNext it of
        None \<Rightarrow> None
      | Some (Inl e) \<Rightarrow> Some (Inl e)
      | Some (Inr (moved, it')) \<Rightarrow>
          if \<not> moved then Some (Inr working)
          else (case getCurrent it' of
                  Inl e \<Rightarrow> Some (Inl e)
                | Inr pair \<Rightarrow>
                    (case selector working (snd pair) of
                       Inl e \<Rightarrow> Some (Inl e)
                     | Inr working' \<Rightarrow> aggregate_loop it' working' selector)))"

text \<open>The \<open>else\<close> branch of \<open>aggregate\<close>, with the seed and the reducer at hand.\<close>

definition aggregate_seeded ::
  "jsval Series \<Rightarrow> jsval \<Rightarrow> (jsval \<Rightarrow> jsval \<Rightarrow> error + jsval) \<Rightarrow> jsval result" where
  "aggregate_seeded self seed selector =
     bindR (Series_getIterator self) (\<lambda>it. aggregate_loop it seed selector)"

text \<open>
  In \<open>self.skip(1).aggregate(self.first(), seedOrSelector)\<close> the receiver
  \<open>self.skip(1)\<close> is built first, then \<open>self.first()\<close> runs (and throws on an empty
  series), then the inner \<open>aggregate\<close>.
\<close>

definition Series_aggregate :: "jsval Series \<Rightarrow> aggregate_args \<Rightarrow> jsval result" where
  "Series_aggregate self args =
     (case args of
        Selector seedOrSelector \<Rightarrow>
          (let skipped = Series_skip self 1
           in bindR (Series_first self) (\<lambda>seed. aggregate_seeded skipped seed seedOrSelector))
      | Seed_Selector seed selector \<Rightarrow> aggregate_seeded self seed selector
      | Seed seed \<Rightarrow>
          Throw (AssertionError ''Expected 'selector' parameter to aggregate to be a function.''))"

text \<open>
  The arithmetic of the reducers is JavaScript's: \<open>prev + value\<close>, \<open>sum / count\<close>,
  \<open>Math.min\<close> and \<open>Math.max\<close> are parameters of the model.
\<close>

definition Series_sum :: "(jsval \<Rightarrow> jsval \<Rightarrow> jsval) \<Rightarrow> jsval Series \<Rightarrow> jsval result" where
  "Series_sum js_plus self =
     bindR (Series_none self None) (\<lambda>empty.
       if empty then Return (Number 0)
       else Series_aggregate self (Selector (\<lambda>prev val. Inr (js_plus prev val))))"

definition Series_average ::
  "(jsval \<Rightarrow> jsval \<Rightarrow> jsval) \<Rightarrow> (jsval \<Rightarrow> jsval \<Rightarrow> jsval) \<Rightarrow> jsval Series \<Rightarrow> jsval result" where
  "Series_average js_plus js_divide self =
     bindR (Series_count self) (\<lambda>count.
       if count > 0
       then bindR (Series_sum js_plus self) (\<lambda>s. Return (js_divide s (Number (of_nat count))))
       else Return (Number 0))"

definition Series_min :: "(jsval \<Rightarrow> jsval \<Rightarrow> jsval) \<Rightarrow> jsval Series \<Rightarrow> jsval result" where
  "Series_min Math_min self =
     Series_aggregate self (Selector (\<lambda>prev val. Inr (Math_min prev val)))"

definition Series_max :: "(jsval \<Rightarrow> jsval \<Rightarrow> jsval) \<Rightarrow> jsval Series \<Rightarrow> jsval result" where
  "Series_max Math_max self =
     Series_aggregate self (Selector (\<lambda>prev val. Inr (Math_max prev val)))"

subsection \<open>reverse\<close>

text \<open>
  The loop inside \<open>getIterator\<close> of the reversed series (and of the reversed
  data-frame): every pair of the source, unfiltered, in source order.
\<close>

partial_function (option) reverse_loop ::
  "'a iterator \<Rightarrow> 'a list \<Rightarrow> (error + 'a list) option" where
  "reverse_loop iterator pairs =
     (case moveNext iterator of
        None \<Rightarrow> None
      | Some (Inl e) \<Rightarrow> Some (Inl e)
      | Some (Inr (moved, iterator')) \<Rightarrow>
          if \<not> moved then Some (Inr pairs)
          else (case getCurrent iterator' of
                  Inl e \<Rightarrow> Some (Inl e)
                | Inr pair \<Rightarrow> reverse_loop iterator' (pairs @ [pair])))"

definition Series_reverse :: "'v Series \<Rightarrow> 'v Series" where
  "Series_reverse self =
     from_iterable
       (bindR (Series_getIterator self) (\<lambda>iterator.
          bindR (reverse_loop iterator []) (\<lambda>pairs. Return (ArrayIterator (rev pairs)))))"

subsection \<open>window\<close>

text \<open>
  The iterator that \<open>window\<close> builds. Its variables are \<open>curOutput\<close> (\<open>None\<close> while
  it is \<open>undefined\<close>) and \<open>windowIndex\<close>; \<open>period\<close> is a natural number in the
  model.
\<close>

primcorec window_iterator ::
  "'v Series \<Rightarrow> nat \<Rightarrow> (jsval \<times> 'v Series) option \<times> nat \<Rightarrow> (jsval \<times> 'v Series) iterator" where
  "moveNext (window_iterator self period st) =
     (let window = Series_take (Series_skip self (snd st * period)) period
      in case Series_none window (Some (\<lambda>v. Inr True)) of
           None \<Rightarrow> None
         | Some (Inl e) \<Rightarrow> Some (Inl e)
         | Some (Inr nothing) \<Rightarrow>
             if nothing then Some (Inr (False, window_iterator self period st))
             else Some (Inr (True, window_iterator self period
                                     (Some (Number (of_nat (snd st)), window), snd st + 1))))"
| "getCurrent (window_iterator self period st) =
     (case fst st of None \<Rightarrow> Inl NoCurrent | Some curOutput \<Rightarrow> Inr curOutput)"

definition Series_window :: "'v Series \<Rightarrow> nat \<Rightarrow> 'v Series Series" where
  "Series_window self period = from_iterable (Return (window_iterator self period (None, 0)))"

subsection \<open>parseInts, parseFloats\<close>

text \<open>
  The selector that \<open>parseInts\<close> hands to \<open>select\<close>; \<open>parseInt\<close> is JavaScript's and
  a parameter of the model. \<open>parseFloats\<close> is the same code around \<open>parseFloat\<close>.
\<close>

definition parseInts_selector :: "(string \<Rightarrow> jsval) \<Rightarrow> jsval \<Rightarrow> jsval \<Rightarrow> error + jsval" where
  "parseInts_selector parseInt val valueIndex =
     (if val = Undefined then Inr Undefined
      else (case val of
              String s \<Rightarrow> if length s = 0 then Inr Undefined else Inr (parseInt s)
            | _ \<Rightarrow> Inl (AssertionError
                ''Called parseInts on series, expected all values in the series to be strings'')))"

definition Series_parseInts :: "(string \<Rightarrow> jsval) \<Rightarrow> jsval Series \<Rightarrow> jsval Series" where
  "Series_parseInts parseInt self = Series_select self (parseInts_selector parseInt)"

definition parseFloats_selector :: "(string \<Rightarrow> jsval) \<Rightarrow> jsval \<Rightarrow> jsval \<Rightarrow> error + jsval" where
  "parseFloats_selector parseFloat val valueIndex =
     (if val = Undefined then Inr Undefined
      else (case val of
              String s \<Rightarrow> if length s = 0 then Inr Undefined else Inr (parseFloat s)
            | _ \<Rightarrow> Inl (AssertionError
                ''Called parseFloats on series, expected all values in the series to be strings'')))"

definition Series_parseFloats :: "(string \<Rightarrow> jsval) \<Rightarrow> jsval Series \<Rightarrow> jsval Series" where
  "Series_parseFloats parseFloat self = Series_select self (parseFloats_selector parseFloat)"

section \<open>DataFrame (dataframe.js)\<close>

subsection \<open>Instances and column lookup\<close>

text \<open>
  A DataFrame instance: \<open>_columnNames\<close> and the \<open>getIterator\<close> function that the
  constructor stores on the instance. Rows are pairs \<open>[index, row]\<close>.
\<close>

record DataFrame =
  columnNames :: "string list"
  getIterator :: "(jsval \<times> jsval) iterable"

definition getColumnNames :: "DataFrame \<Rightarrow> string list" where
  "getColumnNames self = columnNames self"

text \<open>The loop of \<open>DataFrame.prototype.getColumnIndex\<close>, from position \<open>i\<close> on.\<close>

function getColumnIndex_loop :: "string list \<Rightarrow> string \<Rightarrow> nat \<Rightarrow> rat" where
  "getColumnIndex_loop names columnName i =
     (if i < length names
      then (if columnName = names ! i then of_nat i
            else getColumnIndex_loop names columnName (i + 1))
      else - 1)"
  by pat_completeness auto
termination
  by (relation "measure (\<lambda>(names, columnName, i). length names - i)") auto

declare getColumnIndex_loop.simps [simp del]

definition getColumnIndex :: "DataFrame \<Rightarrow> jsval \<Rightarrow> error + rat" where
  "getColumnIndex self columnName =
     (case columnName of
        String name \<Rightarrow> Inr (getColumnIndex_loop (getColumnNames self) name 0)
      | _ \<Rightarrow> Inl (AssertionError
          ''Expected 'columnName' parameter to getColumnIndex to be a non-empty string.''))"

text \<open>
  \<open>arr[n]\<close> for a number \<open>n\<close>: the element when \<open>n\<close> is an integer position of the
  array, \<open>undefined\<close> (here \<open>None\<close>) otherwise.
\<close>

definition array_at :: "'a list \<Rightarrow> rat \<Rightarrow> 'a option" where
  "array_at arr n =
     (if of_int \<lfloor>n\<rfloor> = n \<and> 0 \<le> n \<and> n < of_nat (length arr)
      then Some (arr ! nat \<lfloor>n\<rfloor>) else None)"

definition getColumnName :: "DataFrame \<Rightarrow> jsval \<Rightarrow> error + jsval" where
  "getColumnName self columnIndex =
     (case columnIndex of
        Number n \<Rightarrow>
          (if n < 0 \<or> n \<ge> of_nat (length (getColumnNames self)) then Inr Undefined
           else (case array_at (getColumnNames self) n of
                   None \<Rightarrow> Inr Undefined
                 | Some name \<Rightarrow> Inr (String name)))
      | _ \<Rightarrow> Inl (AssertionError
          ''Expected 'columnIndex' parameter to getColumnIndex to be a non-empty string.''))"

subsection \<open>The constructor\<close>

text \<open>
  \<open>Object.isObject\<close> (of the Sugar library): true of plain objects only.
\<close>

definition isObject :: "jsval \<Rightarrow> bool" where
  "isObject v = (case v of Object props \<Rightarrow> True | _ \<Rightarrow> False)"

text \<open>
  \<open>Object.keys\<close> as ECMAScript 2015 defines it: the own enumerable property names. It
  throws a TypeError on \<open>undefined\<close> and \<open>null\<close>; an array or a string has its
  positions as keys, a number or a boolean has none.
\<close>

fun decimal :: "nat \<Rightarrow> string" where
  "decimal n =
     (if n < 10 then [char_of (48 + n)]
      else decimal (n div 10) @ [char_of (48 + n mod 10)])"

definition Object_keys :: "jsval \<Rightarrow> error + string list" where
  "Object_keys v =
     (case v of
        Object props \<Rightarrow> Inr (map fst props)
      | Array elems \<Rightarrow> Inr (map decimal [0..<length elems])
      | String s \<Rightarrow> Inr (map decimal [0..<length s])
      | Undefined \<Rightarrow> Inl (TypeError ''Cannot convert undefined or null to object'')
      | Null \<Rightarrow> Inl (TypeError ''Cannot convert undefined or null to object'')
      | _ \<Rightarrow> Inr [])"

text \<open>
  \<open>E.from(rows).selectMany(Object.keys).distinct().toArray()\<close> of the linq library:
  the keys of all rows, each kept at its first occurrence.
\<close>

fun linq_distinct :: "'a list \<Rightarrow> 'a list \<Rightarrow> 'a list" where
  "linq_distinct seen [] = []"
| "linq_distinct seen (x # xs) =
     (if x \<in> set seen then linq_distinct seen xs else x # linq_distinct (x # seen) xs)"

fun keys_of_rows :: "jsval list \<Rightarrow> error + string list" where
  "keys_of_rows [] = Inr []"
| "keys_of_rows (row # rows) =
     (case Object_keys row of
        Inl e \<Rightarrow> Inl e
      | Inr ks \<Rightarrow> (case keys_of_rows rows of Inl e \<Rightarrow> Inl e | Inr ks' \<Rightarrow> Inr (ks @ ks')))"

partial_function (option) determineColumnNames_rows ::
  "(jsval \<times> jsval) iterator \<Rightarrow> jsval list \<Rightarrow> (error + jsval list) option" where
  "determineColumnNames_rows iterator rows =
     (case moveNext iterator of
        None \<Rightarrow> None
      | Some (Inl e) \<Rightarrow> Some (Inl e)
      | Some (Inr (moved, iterator')) \<Rightarrow>
          if \<not> moved then Some (Inr rows)
          else (case getCurrent iterator' of
                  Inl e \<Rightarrow> Some (Inl e)
                | Inr pair \<Rightarrow> determineColumnNames_rows iterator' (rows @ [snd pair])))"

definition determineColumnNamesFromPairsIterable ::
  "(jsval \<times> jsval) iterable \<Rightarrow> bool \<Rightarrow> string list result" where
  "determineColumnNamesFromPairsIterable iterable' considerAllRows =
     bindR iterable' (\<lambda>iterator.
       if considerAllRows
       then bindR (determineColumnNames_rows iterator []) (\<lambda>rows.
              case keys_of_rows rows of
                Inl e \<Rightarrow> Throw e
              | Inr ks \<Rightarrow> Return (linq_distinct [] ks))
       else bindR (moveNext iterator) (\<lambda>(moved, iterator').
              if \<not> moved then Return []
              else (case getCurrent iterator' of
                      Inl e \<Rightarrow> Throw e
                    | Inr pair \<Rightarrow>
                        (case Object_keys (snd pair) of
                           Inl e \<Rightarrow> Throw e
                         | Inr ks \<Rightarrow> Return ks))))"

text \<open>
  The constructor's \<open>config\<close>. The fields modelled are \<open>iterable\<close> (a function that
  returns an iterator of pairs), \<open>columnNames\<close>, \<open>considerAllRows\<close> and \<open>values\<close>,
  which \<open>Series.prototype.join\<close> passes and the constructor never reads. A config with
  \<open>rows\<close> or \<open>columns\<close> is not modelled, so \<open>!config.rows && !config.columns\<close>
  holds of every config here.
\<close>

record DataFrame_config =
  df_iterable :: "(jsval \<times> jsval) iterable option"
  df_columnNames :: "string list option"
  df_considerAllRows :: bool
  df_values :: "jsval list option"

definition new_DataFrame :: "DataFrame_config option \<Rightarrow> DataFrame result" where
  "new_DataFrame config =
     (case config of
        None \<Rightarrow> Return \<lparr>columnNames = [], getIterator = Return EmptyIterator\<rparr>
      | Some c \<Rightarrow>
          (case df_iterable c of
             Some iterable' \<Rightarrow>
               (case df_columnNames c of
                  Some names \<Rightarrow> Return \<lparr>columnNames = names, getIterator = iterable'\<rparr>
                | None \<Rightarrow>
                    bindR (determineColumnNamesFromPairsIterable iterable' (df_considerAllRows c))
                      (\<lambda>names. Return \<lparr>columnNames = names, getIterator = iterable'\<rparr>))
           | None \<Rightarrow>
               Return \<lparr>columnNames = (case df_columnNames c of Some names \<Rightarrow> names | None \<Rightarrow> []),
                       getIterator = Return EmptyIterator\<rparr>))"

subsection \<open>toPairs, reverse, select\<close>

partial_function (option) DataFrame_toPairs_loop ::
  "(jsval \<times> jsval) iterator \<Rightarrow> (jsval \<times> jsval) list \<Rightarrow> (error + (jsval \<times> jsval) list) option" where
  "DataFrame_toPairs_loop iterator pairs =
     (case moveNext iterator of
        None \<Rightarrow> None
      | Some (Inl e) \<Rightarrow> Some (Inl e)
      | Some (Inr (moved, iterator')) \<Rightarrow>
          if \<not> moved then Some (Inr pairs)
          else (case getCurrent iterator' of
                  Inl e \<Rightarrow> Some (Inl e)
                | Inr pair \<Rightarrow> DataFrame_toPairs_loop iterator' (pairs @ [pair])))"

definition DataFrame_toPairs :: "DataFrame \<Rightarrow> (jsval \<times> jsval) list result" where
  "DataFrame_toPairs self = bindR (getIterator self) (\<lambda>iterator. DataFrame_toPairs_loop iterator [])"

definition DataFrame_reverse :: "DataFrame \<Rightarrow> DataFrame result" where
  "DataFrame_reverse self =
     new_DataFrame (Some
       \<lparr>df_iterable = Some
          (bindR (getIterator self) (\<lambda>iterator.
             bindR (reverse_loop iterator []) (\<lambda>pairs. Return (ArrayIterator (rev pairs))))),
        df_columnNames = Some (getColumnNames self),
        df_considerAllRows = False,
        df_values = None\<rparr>)"

text \<open>
  The function that \<open>DataFrame.prototype.select\<close> hands to \<open>SelectIterator\<close>, and
  the error it throws.
\<close>

definition select_error :: error where
  "select_error = Error ''Expected return value from 'select' selector to be an object that represents a new row in the resulting data-frame.''"

definition select_row ::
  "(jsval \<Rightarrow> jsval \<Rightarrow> error + jsval) \<Rightarrow> jsval \<times> jsval \<Rightarrow> error + jsval \<times> jsval" where
  "select_row selector pair =
     (case selector (snd pair) (fst pair) of
        Inl e \<Rightarrow> Inl e
      | Inr newValue \<Rightarrow>
          if \<not> isObject newValue
          then Inl select_error
          else Inr (fst pair, newValue))"

definition DataFrame_select ::
  "DataFrame \<Rightarrow> (jsval \<Rightarrow> jsval \<Rightarrow> error + jsval) \<Rightarrow> DataFrame result" where
  "DataFrame_select self selector =
     new_DataFrame (Some
       \<lparr>df_iterable = Some
          (bindR (getIterator self) (\<lambda>iterator.
             Return (SelectIterator iterator (select_row selector)))),
        df_columnNames = None,
        df_considerAllRows = False,
        df_values = None\<rparr>)"

section \<open>join (series.js)\<close>

text \<open>
  \<open>E.from(outer).join(inner, outerKey, innerKey, result).toArray()\<close> of the linq
  library, which is not part of this repository: for each outer element in order, one
  result for each inner element, in order, whose key equals the outer element's key. The
  three callbacks are pure functions here.
\<close>

definition linq_join ::
  "'a list \<Rightarrow> 'b list \<Rightarrow> ('a \<Rightarrow> 'k) \<Rightarrow> ('b \<Rightarrow> 'k) \<Rightarrow> ('a \<Rightarrow> 'b \<Rightarrow> 'c) \<Rightarrow> 'c list" where
  "linq_join outer inner outerKeySelector innerKeySelector resultSelector =
     concat (map (\<lambda>a. map (resultSelector a)
                        (filter (\<lambda>b. outerKeySelector a = innerKeySelector b) inner)) outer)"

definition Series_join ::
  "jsval Series \<Rightarrow> jsval Series \<Rightarrow> (jsval \<Rightarrow> jsval \<Rightarrow> jsval) \<Rightarrow> (jsval \<Rightarrow> jsval \<Rightarrow> jsval)
     \<Rightarrow> (jsval \<Rightarrow> jsval \<Rightarrow> jsval) \<Rightarrow> DataFrame result" where
  "Series_join outer inner outerKeySelector innerKeySelector resultSelector =
     bindR (Series_toPairs outer) (\<lambda>outerPairs.
       bindR (Series_toPairs inner) (\<lambda>innerPairs.
         (let joined = linq_join outerPairs innerPairs
                         (\<lambda>outerPair. outerKeySelector (snd outerPair) (fst outerPair))
                         (\<lambda>innerPair. innerKeySelector (snd innerPair) (fst innerPair))
                         (\<lambda>outerPair innerPair. resultSelector (snd outerPair) (snd innerPair))
          in new_DataFrame (Some
               \<lparr>df_iterable = None, df_columnNames = None, df_considerAllRows = False,
                df_values = Some joined\<rparr>))))"

section \<open>What a cursor yields\<close>

text \<open>
  \<open>yields it xs\<close>: driven from its present state, the iterator \<open>it\<close> answers
  \<open>moveNext()\<close> with true once for each element of \<open>xs\<close>, \<open>getCurrent()\<close> then
  returns that element, and the next \<open>moveNext()\<close> answers false.
\<close>

fun yields :: "'a iterator \<Rightarrow> 'a list \<Rightarrow> bool" where
  "yields it [] =
     (case moveNext it of Some (Inr (moved, it')) \<Rightarrow> \<not> moved | _ \<Rightarrow> False)"
| "yields it (x # xs) =
     (case moveNext it of
        Some (Inr (moved, it')) \<Rightarrow> moved \<and> getCurrent it' = Inr x \<and> yields it' xs
      | _ \<Rightarrow> False)"

text \<open>
  \<open>yields_then_throws it xs e\<close>: the iterator yields the elements of \<open>xs\<close> as above,
  and the step after them throws \<open>e\<close>, from \<open>moveNext()\<close> or from \<open>getCurrent()\<close>.
\<close>

fun yields_then_throws :: "'a iterator \<Rightarrow> 'a list \<Rightarrow> error \<Rightarrow> bool" where
  "yields_then_throws it [] e =
     (case moveNext it of
        Some (Inl e') \<Rightarrow> e' = e
      | Some (Inr (moved, it')) \<Rightarrow> moved \<and> getCurrent it' = Inl e
      | None \<Rightarrow> False)"
| "yields_then_throws it (x # xs) e =
     (case moveNext it of
        Some (Inr (moved, it')) \<Rightarrow> moved \<and> getCurrent it' = Inr x \<and> yields_then_throws it' xs e
      | _ \<Rightarrow> False)"

text \<open>The same of an iterable: its \<open>getIterator()\<close> returns a cursor, which yields \<open>xs\<close>.\<close>

definition emits :: "'a iterable \<Rightarrow> 'a list \<Rightarrow> bool" where
  "emits iterable' xs = (case iterable' of Some (Inr it) \<Rightarrow> yields it xs | _ \<Rightarrow> False)"

definition emits_then_throws :: "'a iterable \<Rightarrow> 'a list \<Rightarrow> error \<Rightarrow> bool" where
  "emits_then_throws iterable' xs e =
     (case iterable' of Some (Inr it) \<Rightarrow> yields_then_throws it xs e | _ \<Rightarrow> False)"

section \<open>Concrete inputs\<close>

text \<open>
  \<open>new DataFrame({ columnNames: ["a", "a"] })\<close>: the constructor accepts two columns of
  one name.
\<close>

definition duplicate_columns_config :: DataFrame_config where
  "duplicate_columns_config =
     \<lparr>df_iterable = None, df_columnNames = Some [''a'', ''a''],
      df_considerAllRows = False, df_values = None\<rparr>"

definition duplicate_columns :: DataFrame where
  "duplicate_columns = \<lparr>columnNames = [''a'', ''a''], getIterator = Return EmptyIterator\<rparr>"

text \<open>
  A data-frame over the pairs \<open>[0, {a: 1}]\<close> and \<open>[1, undefined]\<close>, as
  \<open>new DataFrame({ columnNames: ["a"], iterable: function () { return new
  ArrayIterator([[0, {a: 1}], [1, undefined]]); } })\<close> builds it.
\<close>

definition absent_row_config :: DataFrame_config where
  "absent_row_config =
     \<lparr>df_iterable = Some (ArrayIterable [(Number 0, Object [(''a'', Number 1)]), (Number 1, Undefined)]),
      df_columnNames = Some [''a''], df_considerAllRows = False, df_values = None\<rparr>"

definition absent_row_frame :: DataFrame where
  "absent_row_frame =
     \<lparr>columnNames = [''a''],
      getIterator = ArrayIterable [(Number 0, Object [(''a'', Number 1)]), (Number 1, Undefined)]\<rparr>"

text \<open>\<open>new Series({ values: ["x", undefined, "y"] })\<close>.\<close>

definition series_x_undefined_y :: "jsval Series" where
  "series_x_undefined_y =
     new_Series (Some \<lparr>config_iterable = None,
                       config_values = Some [String ''x'', Undefined, String ''y''],
                       config_index = None\<rparr>)"

text \<open>Inputs for \<open>skipWhile\<close>: a predicate that throws when it is called on 5.\<close>

definition flags_1_1_0_1_5 :: "jsval list" where
  "flags_1_1_0_1_5 = [Number 1, Number 1, Number 0, Number 1, Number 5]"

definition is_one_throws_on_five :: "jsval \<Rightarrow> error + bool" where
  "is_one_throws_on_five v =
     (if v = Number 5 then Inl (Error ''predicate evaluated on 5'') else Inr (v = Number 1))"

definition series_1_1_0_1_5 :: "jsval Series" where
  "series_1_1_0_1_5 =
     new_Series (Some \<lparr>config_iterable = None, config_values = Some flags_1_1_0_1_5,
                       config_index = None\<rparr>)"

definition is_one :: "jsval \<Rightarrow> error + bool" where
  "is_one v = Inr (v = Number 1)"

text \<open>\<open>new Series()\<close>, and stand-ins for the arithmetic of the reducers.\<close>

definition empty_series :: "jsval Series" where
  "empty_series = new_Series None"

definition first_argument :: "jsval \<Rightarrow> jsval \<Rightarrow> jsval" where
  "first_argument a b = a"

text \<open>\<open>new Series({ values: [1, 2, 3, 4, 5] })\<close>.\<close>

definition series_1_to_5 :: "jsval Series" where
  "series_1_to_5 =
     new_Series (Some \<lparr>config_iterable = None,
                       config_values = Some [Number 1, Number 2, Number 3, Number 4, Number 5],
                       config_index = None\<rparr>)"

text \<open>
  A stand-in for \<open>parseInt\<close> and \<open>parseFloat\<close> on strings of decimal digits, and
  two series of strings: \<open>["1", "", undefined, "100"]\<close> and \<open>["1", 5, "7"]\<close>.
\<close>

definition parse_decimal :: "string \<Rightarrow> jsval" where
  "parse_decimal s = Number (of_nat (foldl (\<lambda>n c. 10 * n + (of_char c - 48)) 0 s))"

definition series_of_strings :: "jsval Series" where
  "series_of_strings =
     new_Series (Some \<lparr>config_iterable = None,
                       config_values = Some [String ''1'', String [], Undefined, String ''100''],
                       config_index = None\<rparr>)"

definition series_with_number :: "jsval Series" where
  "series_with_number =
     new_Series (Some \<lparr>config_iterable = None,
                       config_values = Some [String ''1'', Number 5, String ''7''],
                       config_index = None\<rparr>)"

text \<open>
  A data-frame of the two rows \<open>[0, {a: 1}]\<close> and \<open>[1, {a: 2}]\<close>, the data-frame
  that \<open>new DataFrame()\<close> builds, and three selectors:
  one returns the number 5 for every row, one returns the row, one returns the row when
  its index is 0 and the number 5 otherwise.
\<close>

definition two_rows_config :: DataFrame_config where
  "two_rows_config =
     \<lparr>df_iterable = Some (ArrayIterable [(Number 0, Object [(''a'', Number 1)]),
                                          (Number 1, Object [(''a'', Number 2)])]),
      df_columnNames = Some [''a''], df_considerAllRows = False, df_values = None\<rparr>"

definition two_rows_frame :: DataFrame where
  "two_rows_frame =
     \<lparr>columnNames = [''a''],
      getIterator = ArrayIterable [(Number 0, Object [(''a'', Number 1)]),
                                   (Number 1, Object [(''a'', Number 2)])]\<rparr>"

definition empty_frame :: DataFrame where
  "empty_frame = \<lparr>columnNames = [], getIterator = Return EmptyIterator\<rparr>"

definition select_five :: "jsval \<Rightarrow> jsval \<Rightarrow> error + jsval" where
  "select_five row idx = Inr (Number 5)"

definition select_row_itself :: "jsval \<Rightarrow> jsval \<Rightarrow> error + jsval" where
  "select_row_itself row idx = Inr row"

definition select_five_after_first :: "jsval \<Rightarrow> jsval \<Rightarrow> error + jsval" where
  "select_five_after_first row idx = (if idx = Number 0 then Inr row else Inr (Number 5))"

text \<open>
  \<open>new Series({ values: [1, 2] })\<close> and \<open>new Series({ values: [2, 2] })\<close>, joined on
  the values themselves into the records \<open>{ outer: a, inner: b }\<close>.
\<close>

definition series_1_2 :: "jsval Series" where
  "series_1_2 =
     new_Series (Some \<lparr>config_iterable = None, config_values = Some [Number 1, Number 2],
                       config_index = None\<rparr>)"

definition series_2_2 :: "jsval Series" where
  "series_2_2 =
     new_Series (Some \<lparr>config_iterable = None, config_values = Some [Number 2, Number 2],
                       config_index = None\<rparr>)"

definition key_is_value :: "jsval \<Rightarrow> jsval \<Rightarrow> jsval" where
  "key_is_value v idx = v"

definition outer_inner_record :: "jsval \<Rightarrow> jsval \<Rightarrow> jsval" where
  "outer_inner_record a b = Object [(''outer'', a), (''inner'', b)]"

section \<open>Properties\<close>

subsection \<open>Cursors and the lists they yield\<close>

lemma yields_Nil: "yields it [] \<longleftrightarrow> (\<exists>it'. moveNext it = Return (False, it'))"
  by (auto split: option.splits sum.splits)

lemma yields_Cons:
  "yields it (x # xs) \<longleftrightarrow>
     (\<exists>it'. moveNext it = Return (True, it') \<and> getCurrent it' = Inr x \<and> yields it' xs)"
  by (auto split: option.splits sum.splits)

lemma yields_unique: "yields it xs \<Longrightarrow> yields it ys \<Longrightarrow> xs = ys"
proof (induction xs arbitrary: it ys)
  case Nil
  then show ?case by (cases ys) (auto simp: yields_Nil yields_Cons simp del: yields.simps)
next
  case (Cons x xs)
  from Cons.prems(1) obtain it' where
    mv: "moveNext it = Return (True, it')" and cur: "getCurrent it' = Inr x" and tl: "yields it' xs"
    unfolding yields_Cons by blast
  show ?case
  proof (cases ys)
    case Nil
    with Cons.prems(2) mv show ?thesis by (simp add: yields_Nil del: yields.simps)
  next
    case (Cons y ys')
    with Cons.prems(2) mv cur have "y = x" and "yields it' ys'"
      by (auto simp: yields_Cons simp del: yields.simps)
    with Cons.IH[OF tl] Cons show ?thesis by simp
  qed
qed

lemma yields_ArrayIterator_at: "yields (ArrayIterator_at arr i) (drop i arr)"
proof (induction "length arr - i" arbitrary: i)
  case 0
  then show ?case by simp
next
  case (Suc k)
  then have lt: "i < length arr" by simp
  then have split: "drop i arr = arr ! i # drop (i + 1) arr"
    by (simp add: Cons_nth_drop_Suc)
  have "yields (ArrayIterator_at arr (i + 1)) (drop (i + 1) arr)"
    using Suc by simp
  with lt show ?case unfolding split by simp
qed

lemma yields_ArrayIterator: "yields (ArrayIterator arr) arr"
  using yields_ArrayIterator_at[of arr 0] by (simp add: ArrayIterator_def)

lemma emits_ArrayIterable: "emits (ArrayIterable arr) arr"
  by (simp add: emits_def ArrayIterable_def yields_ArrayIterator del: yields.simps)

lemma yields_EmptyIterator: "yields EmptyIterator []"
  by simp

lemma emits_from_iterable: "Series_getIterator (from_iterable it) = it"
  by (simp add: Series_getIterator_def from_iterable_def new_Series_def)

subsection \<open>The terminal loops\<close>

lemma toPairs_loop_yields:
  "yields it xs \<Longrightarrow> toPairs_loop it acc = Return (acc @ filter (\<lambda>pair. snd pair \<noteq> Undefined) xs)"
proof (induction xs arbitrary: it acc)
  case Nil
  then obtain it' where "moveNext it = Return (False, it')" unfolding yields_Nil by blast
  then show ?case by (subst toPairs_loop.simps) simp
next
  case (Cons x xs)
  from Cons.prems obtain it' where
    mv: "moveNext it = Return (True, it')" and cur: "getCurrent it' = Inr x" and tl: "yields it' xs"
    unfolding yields_Cons by blast
  show ?case by (subst toPairs_loop.simps) (simp add: mv cur Cons.IH[OF tl])
qed

lemma toValues_loop_yields:
  "yields it xs \<Longrightarrow>
   toValues_loop it acc = Return (acc @ filter (\<lambda>v. v \<noteq> Undefined) (map snd xs))"
proof (induction xs arbitrary: it acc)
  case Nil
  then obtain it' where "moveNext it = Return (False, it')" unfolding yields_Nil by blast
  then show ?case by (subst toValues_loop.simps) simp
next
  case (Cons x xs)
  from Cons.prems obtain it' where
    mv: "moveNext it = Return (True, it')" and cur: "getCurrent it' = Inr x" and tl: "yields it' xs"
    unfolding yields_Cons by blast
  show ?case by (subst toValues_loop.simps) (simp add: mv cur Cons.IH[OF tl])
qed

lemma DataFrame_toPairs_loop_yields:
  "yields it xs \<Longrightarrow> DataFrame_toPairs_loop it acc = Return (acc @ xs)"
proof (induction xs arbitrary: it acc)
  case Nil
  then obtain it' where "moveNext it = Return (False, it')" unfolding yields_Nil by blast
  then show ?case by (subst DataFrame_toPairs_loop.simps) simp
next
  case (Cons x xs)
  from Cons.prems obtain it' where
    mv: "moveNext it = Return (True, it')" and cur: "getCurrent it' = Inr x" and tl: "yields it' xs"
    unfolding yields_Cons by blast
  show ?case by (subst DataFrame_toPairs_loop.simps) (simp add: mv cur Cons.IH[OF tl])
qed

lemma emitsE:
  assumes "emits iterable' xs"
  obtains it where "iterable' = Return it" and "yields it xs"
  using assms by (auto simp: emits_def split: option.splits sum.splits)

subsection \<open>Column lookup\<close>

lemma getColumnIndex_loop_miss:
  "name \<notin> set (drop i names) \<Longrightarrow> getColumnIndex_loop names name i = - 1"
proof (induction names name i rule: getColumnIndex_loop.induct)
  case (1 names columnName i)
  show ?case
  proof (cases "i < length names")
    case True
    then have split: "drop i names = names ! i # drop (i + 1) names"
      by (simp add: Cons_nth_drop_Suc)
    with 1(2) have ne: "columnName \<noteq> names ! i" and "columnName \<notin> set (drop (i + 1) names)"
      by auto
    with 1(1)[OF True] have "getColumnIndex_loop names columnName (i + 1) = - 1" by blast
    with True ne show ?thesis by (subst getColumnIndex_loop.simps) simp
  next
    case False
    then show ?thesis by (subst getColumnIndex_loop.simps) simp
  qed
qed

lemma getColumnIndex_loop_hit:
  "name \<in> set (drop i names) \<Longrightarrow>
   \<exists>j. i \<le> j \<and> j < length names \<and> names ! j = name \<and>
       getColumnIndex_loop names name i = of_nat j"
proof (induction names name i rule: getColumnIndex_loop.induct)
  case (1 names columnName i)
  show ?case
  proof (cases "i < length names")
    case True
    then have split: "drop i names = names ! i # drop (i + 1) names"
      by (simp add: Cons_nth_drop_Suc)
    show ?thesis
    proof (cases "columnName = names ! i")
      case True
      with \<open>i < length names\<close> have "getColumnIndex_loop names columnName i = of_nat i"
        by (subst getColumnIndex_loop.simps) simp
      with True \<open>i < length names\<close> show ?thesis by blast
    next
      case False
      with 1(2) split have "columnName \<in> set (drop (i + 1) names)" by simp
      from 1(1)[OF True False this] obtain j where
        j: "i + 1 \<le> j" "j < length names" "names ! j = columnName"
        "getColumnIndex_loop names columnName (i + 1) = of_nat j" by blast
      from True False j(4) have "getColumnIndex_loop names columnName i = of_nat j"
        by (subst getColumnIndex_loop.simps) simp
      with j show ?thesis by (intro exI[of _ j]) simp
    qed
  next
    case False
    with 1(2) show ?thesis by simp
  qed
qed

lemma getColumnName_at:
  "i < length (getColumnNames df) \<Longrightarrow>
   getColumnName df (Number (of_nat i)) = Inr (String (getColumnNames df ! i))"
  by (simp add: getColumnName_def array_at_def)

text \<open>
  C10, as the code has it. A name that is not a column gives \<open>-1\<close>, a number outside
  \<open>[0, number of columns)\<close> gives \<open>undefined\<close>, and neither call throws. For a declared
  name, \<open>getColumnName(getColumnIndex(name))\<close> is the name. \<open>getColumnIndex\<close> returns
  the first position of a name, so \<open>getColumnIndex(getColumnName(i)) = i\<close> holds when
  the column names are distinct.
\<close>

theorem column_lookup:
  "(name \<notin> set (getColumnNames df) \<longrightarrow> getColumnIndex df (String name) = Inr (- 1))
   \<and> (n < 0 \<or> of_nat (length (getColumnNames df)) \<le> n \<longrightarrow>
        getColumnName df (Number n) = Inr Undefined)
   \<and> (name' \<in> set (getColumnNames df) \<longrightarrow>
        (\<exists>k. getColumnIndex df (String name') = Inr k \<and>
             getColumnName df (Number k) = Inr (String name')))
   \<and> (distinct (getColumnNames df) \<and> i < length (getColumnNames df) \<longrightarrow>
        getColumnName df (Number (of_nat i)) = Inr (String (getColumnNames df ! i)) \<and>
        getColumnIndex df (String (getColumnNames df ! i)) = Inr (of_nat i))"
proof (intro conjI impI)
  assume "name \<notin> set (getColumnNames df)"
  then show "getColumnIndex df (String name) = Inr (- 1)"
    by (simp add: getColumnIndex_def getColumnIndex_loop_miss)
next
  assume "n < 0 \<or> of_nat (length (getColumnNames df)) \<le> n"
  then show "getColumnName df (Number n) = Inr Undefined"
    by (auto simp: getColumnName_def)
next
  assume "name' \<in> set (getColumnNames df)"
  then obtain j where j: "j < length (getColumnNames df)" "getColumnNames df ! j = name'"
    "getColumnIndex_loop (getColumnNames df) name' 0 = of_nat j"
    using getColumnIndex_loop_hit[of name' 0 "getColumnNames df"] by auto
  then show "\<exists>k. getColumnIndex df (String name') = Inr k \<and>
                 getColumnName df (Number k) = Inr (String name')"
    using getColumnName_at[of j df] by (simp add: getColumnIndex_def)
next
  assume a: "distinct (getColumnNames df) \<and> i < length (getColumnNames df)"
  then show "getColumnName df (Number (of_nat i)) = Inr (String (getColumnNames df ! i))"
    by (simp add: getColumnName_at)
  from a have "getColumnNames df ! i \<in> set (drop 0 (getColumnNames df))" by simp
  from getColumnIndex_loop_hit[OF this] obtain j where
    j: "j < length (getColumnNames df)" "getColumnNames df ! j = getColumnNames df ! i"
    "getColumnIndex_loop (getColumnNames df) (getColumnNames df ! i) 0 = of_nat j" by auto
  with a have "j = i" by (simp add: nth_eq_iff_index_eq)
  with j show "getColumnIndex df (String (getColumnNames df ! i)) = Inr (of_nat i)"
    by (simp add: getColumnIndex_def)
qed

theorem column_lookup_witness:
  "getColumnIndex absent_row_frame (String ''z'') = Inr (- 1)
   \<and> getColumnName absent_row_frame (Number 1) = Inr Undefined
   \<and> getColumnName absent_row_frame (Number 0) = Inr (String ''a'')
   \<and> getColumnIndex absent_row_frame (String ''a'') = Inr 0"
  using column_lookup[of "''z''" absent_row_frame 1 "''a''" 0]
  by (simp add: absent_row_frame_def getColumnNames_def getColumnIndex_def getColumnIndex_loop.simps)

theorem column_lookup_counterexample:
  "new_DataFrame (Some duplicate_columns_config) = Return duplicate_columns
   \<and> getColumnName duplicate_columns (Number 1) = Inr (String ''a'')
   \<and> getColumnIndex duplicate_columns (String ''a'') = Inr 0
   \<and> getColumnIndex duplicate_columns (String ''a'') \<noteq> Inr 1"
  by (simp add: new_DataFrame_def duplicate_columns_config_def duplicate_columns_def
        getColumnName_def getColumnIndex_def getColumnNames_def array_at_def
        getColumnIndex_loop.simps)

subsection \<open>toPairs and toValues\<close>

text \<open>
  C2, as the code has it. \<open>Series.prototype.toPairs\<close> returns the pairs of the pipeline
  in source order without those whose value is \<open>undefined\<close>, and
  \<open>Series.prototype.toValues\<close> the values that are not \<open>undefined\<close>.
  \<open>DataFrame.prototype.toPairs\<close> has no such test: it returns every pair of the pipeline.
\<close>

theorem toPairs_toValues:
  "(emits (Series_getIterator s) xs \<longrightarrow>
      Series_toPairs s = Return (filter (\<lambda>pair. snd pair \<noteq> Undefined) xs) \<and>
      Series_toValues s = Return (filter (\<lambda>v. v \<noteq> Undefined) (map snd xs)))
   \<and> (emits (getIterator df) ys \<longrightarrow> DataFrame_toPairs df = Return ys)"
proof (intro conjI impI)
  assume "emits (Series_getIterator s) xs"
  then obtain it where it: "Series_getIterator s = Return it" "yields it xs"
    by (rule emitsE)
  show "Series_toPairs s = Return (filter (\<lambda>pair. snd pair \<noteq> Undefined) xs)"
    using it by (simp add: Series_toPairs_def bindR_def toPairs_loop_yields del: yields.simps)
  show "Series_toValues s = Return (filter (\<lambda>v. v \<noteq> Undefined) (map snd xs))"
    using it by (simp add: Series_toValues_def bindR_def toValues_loop_yields del: yields.simps)
next
  assume "emits (getIterator df) ys"
  then obtain it where it: "getIterator df = Return it" "yields it ys"
    by (rule emitsE)
  then show "DataFrame_toPairs df = Return ys"
    by (simp add: DataFrame_toPairs_def bindR_def DataFrame_toPairs_loop_yields del: yields.simps)
qed

lemma series_x_undefined_y_emits:
  "emits (Series_getIterator series_x_undefined_y)
      [(Number 0, String ''x''), (Number 1, Undefined), (Number 2, String ''y'')]"
  by (simp add: series_x_undefined_y_def new_Series_def Series_getIterator_def
        PairsIterable_def createIndexIterable_def createValuesIterable_def CountIterable_def
        CountIterator_def ArrayIterable_def ArrayIterator_def bindR_def emits_def)

lemma absent_row_frame_emits:
  "emits (getIterator absent_row_frame)
     [(Number 0, Object [(''a'', Number 1)]), (Number 1, Undefined)]"
  by (simp add: absent_row_frame_def ArrayIterable_def ArrayIterator_def emits_def)

theorem toPairs_toValues_witness:
  "Series_toPairs series_x_undefined_y = Return [(Number 0, String ''x''), (Number 2, String ''y'')]
   \<and> Series_toValues series_x_undefined_y = Return [String ''x'', String ''y'']
   \<and> DataFrame_toPairs absent_row_frame =
       Return [(Number 0, Object [(''a'', Number 1)]), (Number 1, Undefined)]"
  using toPairs_toValues[of series_x_undefined_y
      "[(Number 0, String ''x''), (Number 1, Undefined), (Number 2, String ''y'')]"
      absent_row_frame "[(Number 0, Object [(''a'', Number 1)]), (Number 1, Undefined)]"]
    series_x_undefined_y_emits absent_row_frame_emits
  by simp

theorem DataFrame_toPairs_counterexample:
  "new_DataFrame (Some absent_row_config) = Return absent_row_frame
   \<and> DataFrame_toPairs absent_row_frame =
       Return [(Number 0, Object [(''a'', Number 1)]), (Number 1, Undefined)]
   \<and> DataFrame_toPairs absent_row_frame \<noteq>
       Return (filter (\<lambda>pair. snd pair \<noteq> Undefined)
                 [(Number 0, Object [(''a'', Number 1)]), (Number 1, Undefined)])"
proof -
  from absent_row_frame_emits obtain it where it: "getIterator absent_row_frame = Return it"
    "yields it [(Number 0, Object [(''a'', Number 1)]), (Number 1, Undefined)]"
    by (rule emitsE)
  then have "DataFrame_toPairs absent_row_frame =
       Return [(Number 0, Object [(''a'', Number 1)]), (Number 1, Undefined)]"
    by (simp add: DataFrame_toPairs_def bindR_def DataFrame_toPairs_loop_yields del: yields.simps)
  moreover have "new_DataFrame (Some absent_row_config) = Return absent_row_frame"
    by (simp add: new_DataFrame_def absent_row_config_def absent_row_frame_def)
  ultimately show ?thesis by simp
qed

subsection \<open>SkipWhile\<close>

lemma SkipWhileIterator_loop_skipped:
  "moveNext it = Return (moved, it') \<Longrightarrow>
   SkipWhileIterator_loop it p True = Return (moved, it', True)"
  by (subst SkipWhileIterator_loop.simps) simp

lemma yields_SkipWhileIterator_skipped:
  "yields it xs \<Longrightarrow> yields (SkipWhileIterator_st p (it, True)) xs"
proof (induction xs arbitrary: it)
  case Nil
  then obtain it' where "moveNext it = Return (False, it')" unfolding yields_Nil by blast
  from SkipWhileIterator_loop_skipped[OF this] show ?case by simp
next
  case (Cons x xs)
  from Cons.prems obtain it' where
    mv: "moveNext it = Return (True, it')" and cur: "getCurrent it' = Inr x" and tl: "yields it' xs"
    unfolding yields_Cons by blast
  from Cons.IH[OF tl] SkipWhileIterator_loop_skipped[OF mv] cur show ?case
    by simp
qed

lemma SkipWhileIterator_loop_skipping:
  "yields it (pre @ x # rest) \<Longrightarrow> \<forall>y \<in> set pre. p y = Inr True \<Longrightarrow> p x = Inr False \<Longrightarrow>
   \<exists>it'. SkipWhileIterator_loop it p False = Return (True, it', True) \<and>
         getCurrent it' = Inr x \<and> yields it' rest"
proof (induction pre arbitrary: it)
  case Nil
  then obtain it' where
    mv: "moveNext it = Return (True, it')" and cur: "getCurrent it' = Inr x" and tl: "yields it' rest"
    by (auto simp: yields_Cons simp del: yields.simps)
  have "SkipWhileIterator_loop it p False = Return (True, it', True)"
    by (subst SkipWhileIterator_loop.simps) (simp add: mv cur Nil.prems(3))
  with cur tl show ?case by blast
next
  case (Cons y pre)
  from Cons.prems(1) obtain it' where
    mv: "moveNext it = Return (True, it')" and cur: "getCurrent it' = Inr y"
    and tl: "yields it' (pre @ x # rest)"
    by (auto simp: yields_Cons simp del: yields.simps)
  from Cons.prems(2) have py: "p y = Inr True" and pre: "\<forall>y \<in> set pre. p y = Inr True" by auto
  have "SkipWhileIterator_loop it p False = SkipWhileIterator_loop it' p False"
    by (subst SkipWhileIterator_loop.simps) (simp add: mv cur py)
  with Cons.IH[OF tl pre Cons.prems(3)] show ?case by simp
qed

lemma SkipWhileIterator_loop_all:
  "yields it xs \<Longrightarrow> \<forall>y \<in> set xs. p y = Inr True \<Longrightarrow>
   \<exists>it'. SkipWhileIterator_loop it p False = Return (False, it', False)"
proof (induction xs arbitrary: it)
  case Nil
  then obtain it' where mv: "moveNext it = Return (False, it')" unfolding yields_Nil by blast
  have "SkipWhileIterator_loop it p False = Return (False, it', False)"
    by (subst SkipWhileIterator_loop.simps) (simp add: mv)
  then show ?case by blast
next
  case (Cons y xs)
  from Cons.prems(1) obtain it' where
    mv: "moveNext it = Return (True, it')" and cur: "getCurrent it' = Inr y" and tl: "yields it' xs"
    by (auto simp: yields_Cons simp del: yields.simps)
  from Cons.prems(2) have py: "p y = Inr True" and all: "\<forall>y \<in> set xs. p y = Inr True" by auto
  have "SkipWhileIterator_loop it p False = SkipWhileIterator_loop it' p False"
    by (subst SkipWhileIterator_loop.simps) (simp add: mv cur py)
  with Cons.IH[OF tl all] show ?case by simp
qed

lemma yields_SkipWhileIterator:
  assumes "yields it (pre @ x # rest)" and "\<forall>y \<in> set pre. p y = Inr True" and "p x = Inr False"
  shows "yields (SkipWhileIterator it p) (x # rest)"
proof -
  from SkipWhileIterator_loop_skipping[OF assms] obtain it' where
    "SkipWhileIterator_loop it p False = Return (True, it', True)"
    "getCurrent it' = Inr x" "yields it' rest" by blast
  then show ?thesis
    using yields_SkipWhileIterator_skipped[of it' rest p]
    by (simp add: SkipWhileIterator_def)
qed

lemma yields_SkipWhileIterator_all:
  assumes "yields it xs" and "\<forall>y \<in> set xs. p y = Inr True"
  shows "yields (SkipWhileIterator it p) []"
proof -
  from SkipWhileIterator_loop_all[OF assms] obtain it' where
    "SkipWhileIterator_loop it p False = Return (False, it', False)" by blast
  then show ?thesis by (simp add: SkipWhileIterator_def)
qed

text \<open>
  C7. Let the source cursor yield \<open>pre @ x # rest\<close>, the predicate return true on every
  pair of \<open>pre\<close> and false on \<open>x\<close>. Then the SkipWhile cursor yields \<open>x\<close> and
  after it every pair of \<open>rest\<close>. Nothing is assumed of the predicate on \<open>rest\<close>:
  there it may return true, or throw, and the pairs pass all the same, so it is not
  evaluated again. When the predicate returns true on every pair, the cursor yields
  nothing. \<open>Series.prototype.skipWhile\<close> is this cursor with the predicate applied to
  the value of each pair.
\<close>

theorem SkipWhile_passes_after_first_false:
  "(yields it (pre @ x # rest) \<and> (\<forall>y \<in> set pre. p y = Inr True) \<and> p x = Inr False \<longrightarrow>
      yields (SkipWhileIterator it p) (x # rest))
   \<and> (yields it2 ys \<and> (\<forall>y \<in> set ys. p2 y = Inr True) \<longrightarrow>
        yields (SkipWhileIterator it2 p2) [])
   \<and> (emits (Series_getIterator s) (qs @ q # rs) \<and> (\<forall>y \<in> set qs. f (snd y) = Inr True) \<and>
        f (snd q) = Inr False \<longrightarrow>
        emits (Series_getIterator (Series_skipWhile s f)) (q # rs))"
proof (intro conjI impI)
  assume "yields it (pre @ x # rest) \<and> (\<forall>y \<in> set pre. p y = Inr True) \<and> p x = Inr False"
  then show "yields (SkipWhileIterator it p) (x # rest)"
    by (intro yields_SkipWhileIterator[of it pre x rest p]) simp_all
next
  assume "yields it2 ys \<and> (\<forall>y \<in> set ys. p2 y = Inr True)"
  then show "yields (SkipWhileIterator it2 p2) []"
    by (intro yields_SkipWhileIterator_all[of it2 ys p2]) simp_all
next
  assume a: "emits (Series_getIterator s) (qs @ q # rs) \<and> (\<forall>y \<in> set qs. f (snd y) = Inr True) \<and>
        f (snd q) = Inr False"
  then have "emits (Series_getIterator s) (qs @ q # rs)" by simp
  then obtain it0 where it0: "Series_getIterator s = Return it0" "yields it0 (qs @ q # rs)"
    by (rule emitsE)
  from a have "yields (SkipWhileIterator it0 (\<lambda>pair. f (snd pair))) (q # rs)"
    by (intro yields_SkipWhileIterator[OF it0(2)]) simp_all
  with it0(1) show "emits (Series_getIterator (Series_skipWhile s f)) (q # rs)"
    by (simp add: Series_skipWhile_def emits_from_iterable SkipWhileIterable_def bindR_def
          emits_def del: yields.simps)
qed

theorem SkipWhile_passes_after_first_false_witness:
  "yields (SkipWhileIterator (ArrayIterator flags_1_1_0_1_5) is_one_throws_on_five)
     [Number 0, Number 1, Number 5]
   \<and> is_one_throws_on_five (Number 1) = Inr True
   \<and> is_one_throws_on_five (Number 5) = Inl (Error ''predicate evaluated on 5'')
   \<and> yields (SkipWhileIterator (ArrayIterator [Number 1, Number 1]) is_one) []
   \<and> emits (Series_getIterator (Series_skipWhile series_1_1_0_1_5 is_one_throws_on_five))
       [(Number 2, Number 0), (Number 3, Number 1), (Number 4, Number 5)]"
proof -
  have h1: "yields (ArrayIterator flags_1_1_0_1_5) ([Number 1, Number 1] @ Number 0 # [Number 1, Number 5])"
    using yields_ArrayIterator[of flags_1_1_0_1_5] by (simp add: flags_1_1_0_1_5_def)
  have h2: "yields (ArrayIterator [Number 1, Number 1]) [Number 1, Number 1]"
    by (rule yields_ArrayIterator)
  have h3: "emits (Series_getIterator series_1_1_0_1_5)
      ([(Number 0, Number 1), (Number 1, Number 1)] @ (Number 2, Number 0) #
       [(Number 3, Number 1), (Number 4, Number 5)])"
    by (simp add: series_1_1_0_1_5_def flags_1_1_0_1_5_def new_Series_def Series_getIterator_def
        PairsIterable_def createIndexIterable_def createValuesIterable_def CountIterable_def
        CountIterator_def ArrayIterable_def ArrayIterator_def bindR_def emits_def)
  show ?thesis
    using SkipWhile_passes_after_first_false[of "ArrayIterator flags_1_1_0_1_5"
        "[Number 1, Number 1]" "Number 0" "[Number 1, Number 5]" is_one_throws_on_five
        "ArrayIterator [Number 1, Number 1]" "[Number 1, Number 1]" is_one
        series_1_1_0_1_5 "[(Number 0, Number 1), (Number 1, Number 1)]" "(Number 2, Number 0)"
        "[(Number 3, Number 1), (Number 4, Number 5)]" is_one_throws_on_five] h1 h2 h3
    by (simp add: is_one_throws_on_five_def is_one_def del: yields.simps)
qed

subsection \<open>Aggregating an empty series\<close>

text \<open>
  C5. On a series whose cursor is exhausted at once, \<open>sum()\<close> and \<open>average()\<close> return 0,
  and \<open>min()\<close>, \<open>max()\<close>, \<open>first()\<close>, \<open>last()\<close>, \<open>firstPair()\<close> and
  \<open>lastPair()\<close> throw \<open>Error("No values in Series.")\<close>, whatever the arithmetic of
  the reducers is.
\<close>

theorem empty_series_aggregates:
  assumes "emits (Series_getIterator s) []"
  shows "Series_sum js_plus s = Return (Number 0)
    \<and> Series_average js_plus js_divide s = Return (Number 0)
    \<and> Series_min Math_min s = Throw (Error ''No values in Series.'')
    \<and> Series_max Math_max s = Throw (Error ''No values in Series.'')
    \<and> Series_first s = Throw (Error ''No values in Series.'')
    \<and> Series_last s = Throw (Error ''No values in Series.'')
    \<and> Series_firstPair s = Throw (Error ''No values in Series.'')
    \<and> Series_lastPair s = Throw (Error ''No values in Series.'')"
proof -
  from assms obtain it where it: "Series_getIterator s = Return it" "yields it []"
    by (rule emitsE)
  then obtain it' where mv: "moveNext it = Return (False, it')"
    unfolding yields_Nil by blast
  have none: "Series_none s None = Return True"
    by (simp add: Series_none_def it(1) mv bindR_def)
  have count: "Series_count s = Return 0"
    unfolding Series_count_def by (subst count_loop.simps) (simp add: it(1) mv bindR_def)
  have first: "Series_first s = Throw (Error ''No values in Series.'')"
    by (simp add: Series_first_def it(1) mv bindR_def)
  have sum: "Series_sum js_plus s = Return (Number 0)"
    by (simp add: Series_sum_def none bindR_def)
  have average: "Series_average js_plus js_divide s = Return (Number 0)"
    by (simp add: Series_average_def count bindR_def)
  have min: "Series_min Math_min s = Throw (Error ''No values in Series.'')"
    by (simp add: Series_min_def Series_aggregate_def first bindR_def)
  have max: "Series_max Math_max s = Throw (Error ''No values in Series.'')"
    by (simp add: Series_max_def Series_aggregate_def first bindR_def)
  have last: "Series_last s = Throw (Error ''No values in Series.'')"
    by (simp add: Series_last_def it(1) mv bindR_def)
  have firstPair: "Series_firstPair s = Throw (Error ''No values in Series.'')"
    by (simp add: Series_firstPair_def it(1) mv bindR_def)
  have lastPair: "Series_lastPair s = Throw (Error ''No values in Series.'')"
    by (simp add: Series_lastPair_def it(1) mv bindR_def)
  from sum average min max first last firstPair lastPair show ?thesis by simp
qed

theorem empty_series_aggregates_witness:
  "emits (Series_getIterator empty_series) []
    \<and> Series_sum first_argument empty_series = Return (Number 0)
    \<and> Series_average first_argument first_argument empty_series = Return (Number 0)
    \<and> Series_min first_argument empty_series = Throw (Error ''No values in Series.'')
    \<and> Series_max first_argument empty_series = Throw (Error ''No values in Series.'')
    \<and> Series_first empty_series = Throw (Error ''No values in Series.'')
    \<and> Series_last empty_series = Throw (Error ''No values in Series.'')
    \<and> Series_firstPair empty_series = Throw (Error ''No values in Series.'')
    \<and> Series_lastPair empty_series = Throw (Error ''No values in Series.'')"
proof -
  have h: "emits (Series_getIterator empty_series) []"
    by (simp add: empty_series_def new_Series_def Series_getIterator_def EmptyIterable_def emits_def)
  from empty_series_aggregates[OF h, of first_argument first_argument first_argument first_argument] h
  show ?thesis by simp
qed

subsection \<open>reverse\<close>

lemma reverse_loop_yields: "yields it xs \<Longrightarrow> reverse_loop it acc = Return (acc @ xs)"
proof (induction xs arbitrary: it acc)
  case Nil
  then obtain it' where "moveNext it = Return (False, it')" unfolding yields_Nil by blast
  then show ?case by (subst reverse_loop.simps) simp
next
  case (Cons x xs)
  from Cons.prems obtain it' where
    mv: "moveNext it = Return (True, it')" and cur: "getCurrent it' = Inr x" and tl: "yields it' xs"
    unfolding yields_Cons by blast
  show ?case by (subst reverse_loop.simps) (simp add: mv cur Cons.IH[OF tl])
qed

lemma reverse_loop_returns:
  assumes "reverse_loop it acc = Return ys"
  shows "\<exists>xs. yields it xs \<and> ys = acc @ xs"
proof -
  have "\<forall>zs. (Inr ys :: error + 'a list) = Inr zs \<longrightarrow> (\<exists>xs. yields it xs \<and> zs = acc @ xs)"
  proof (rule reverse_loop.raw_induct[where
        P = "\<lambda>it acc r. \<forall>zs. r = Inr zs \<longrightarrow> (\<exists>xs. yields it xs \<and> zs = acc @ xs)",
        OF _ assms])
    fix loop :: "'a iterator \<Rightarrow> 'a list \<Rightarrow> (error + 'a list) option" and it acc r
    assume IH: "\<And>it acc r. loop it acc = Some r \<Longrightarrow>
                  \<forall>ys. r = Inr ys \<longrightarrow> (\<exists>xs. yields it xs \<and> ys = acc @ xs)"
      and body: "(case moveNext it of
                    None \<Rightarrow> None
                  | Some (Inl e) \<Rightarrow> Some (Inl e)
                  | Some (Inr (moved, it')) \<Rightarrow>
                      if \<not> moved then Some (Inr acc)
                      else (case getCurrent it' of
                              Inl e \<Rightarrow> Some (Inl e)
                            | Inr pair \<Rightarrow> loop it' (acc @ [pair]))) = Some r"
    show "\<forall>ys. r = Inr ys \<longrightarrow> (\<exists>xs. yields it xs \<and> ys = acc @ xs)"
    proof (intro allI impI)
      fix ys assume r: "r = Inr ys"
      from body r obtain moved it' where mv: "moveNext it = Return (moved, it')"
        by (auto split: option.splits sum.splits)
      show "\<exists>xs. yields it xs \<and> ys = acc @ xs"
      proof (cases moved)
        case False
        with body r mv have "ys = acc" by simp
        moreover from mv False have "yields it []" by simp
        ultimately show ?thesis by auto
      next
        case True
        with body r mv obtain pair where cur: "getCurrent it' = Inr pair"
          and rec: "loop it' (acc @ [pair]) = Some (Inr ys)"
          by (auto split: sum.splits)
        from IH[OF rec] obtain xs where "yields it' xs" "ys = (acc @ [pair]) @ xs" by blast
        with mv True cur have "yields it (pair # xs)" "ys = acc @ pair # xs" by simp_all
        then show ?thesis by blast
      qed
    qed
  qed
  then show ?thesis by simp
qed

lemma emits_reversed:
  "emits (bindR src (\<lambda>it. bindR (reverse_loop it []) (\<lambda>pairs. Return (ArrayIterator (rev pairs))))) ys
   \<longleftrightarrow> (\<exists>xs. emits src xs \<and> ys = rev xs)"
proof
  assume "\<exists>xs. emits src xs \<and> ys = rev xs"
  then obtain xs it where "src = Return it" "yields it xs" "ys = rev xs"
    by (auto elim: emitsE)
  then show "emits (bindR src (\<lambda>it. bindR (reverse_loop it [])
                 (\<lambda>pairs. Return (ArrayIterator (rev pairs))))) ys"
    by (simp add: bindR_def reverse_loop_yields emits_def yields_ArrayIterator del: yields.simps)
next
  assume a: "emits (bindR src (\<lambda>it. bindR (reverse_loop it [])
                 (\<lambda>pairs. Return (ArrayIterator (rev pairs))))) ys"
  then obtain it pairs where src: "src = Return it" and loop: "reverse_loop it [] = Return pairs"
    by (auto simp: emits_def bindR_def split: option.splits sum.splits)
  with a have "yields (ArrayIterator (rev pairs)) ys"
    by (simp add: emits_def bindR_def del: yields.simps)
  with yields_ArrayIterator[of "rev pairs"] have ys: "ys = rev pairs"
    by (rule yields_unique[symmetric])
  from reverse_loop_returns[OF loop] have "yields it pairs" by simp
  with src ys show "\<exists>xs. emits src xs \<and> ys = rev xs"
    by (auto simp: emits_def simp del: yields.simps)
qed

lemma emits_Series_reverse:
  "emits (Series_getIterator (Series_reverse s)) ys
   \<longleftrightarrow> (\<exists>xs. emits (Series_getIterator s) xs \<and> ys = rev xs)"
  by (simp add: Series_reverse_def emits_from_iterable emits_reversed)

lemma DataFrame_reverse_returns:
  "DataFrame_reverse df =
     Return \<lparr>columnNames = getColumnNames df,
             getIterator = bindR (getIterator df) (\<lambda>it. bindR (reverse_loop it [])
                             (\<lambda>pairs. Return (ArrayIterator (rev pairs))))\<rparr>"
  by (simp add: DataFrame_reverse_def new_DataFrame_def)

text \<open>
  C8. The twice reversed series yields a list of pairs exactly when the series does, and
  then the same list. The twice reversed data-frame is built without an error, has the
  column names of the data-frame and yields a list of pairs exactly when the data-frame
  does, and then the same list.
\<close>

theorem reverse_involution:
  "(emits (Series_getIterator (Series_reverse (Series_reverse s))) xs
      \<longleftrightarrow> emits (Series_getIterator s) xs)
   \<and> (\<exists>df2. bindR (DataFrame_reverse df) DataFrame_reverse = Return df2
            \<and> getColumnNames df2 = getColumnNames df
            \<and> (emits (getIterator df2) ys \<longleftrightarrow> emits (getIterator df) ys))"
proof
  show "emits (Series_getIterator (Series_reverse (Series_reverse s))) xs
      \<longleftrightarrow> emits (Series_getIterator s) xs"
    by (auto simp: emits_Series_reverse)
next
  let ?r = "\<lambda>src. bindR src (\<lambda>it. bindR (reverse_loop it [])
                             (\<lambda>pairs. Return (ArrayIterator (rev pairs))))"
  let ?df2 = "\<lparr>columnNames = getColumnNames df, getIterator = ?r (?r (getIterator df))\<rparr>"
  have "bindR (DataFrame_reverse df) DataFrame_reverse = Return ?df2"
    by (simp add: DataFrame_reverse_returns bindR_def getColumnNames_def)
  moreover have "getColumnNames ?df2 = getColumnNames df"
    by (simp add: getColumnNames_def)
  moreover have "emits (getIterator ?df2) ys \<longleftrightarrow> emits (getIterator df) ys"
    by (auto simp: emits_reversed)
  ultimately show "\<exists>df2. bindR (DataFrame_reverse df) DataFrame_reverse = Return df2
            \<and> getColumnNames df2 = getColumnNames df
            \<and> (emits (getIterator df2) ys \<longleftrightarrow> emits (getIterator df) ys)"
    by blast
qed

theorem reverse_involution_witness:
  "emits (Series_getIterator (Series_reverse (Series_reverse series_x_undefined_y)))
     [(Number 0, String ''x''), (Number 1, Undefined), (Number 2, String ''y'')]
   \<and> (\<exists>df2. bindR (DataFrame_reverse absent_row_frame) DataFrame_reverse = Return df2
            \<and> getColumnNames df2 = [''a'']
            \<and> emits (getIterator df2) [(Number 0, Object [(''a'', Number 1)]), (Number 1, Undefined)])"
  using reverse_involution[of series_x_undefined_y
      "[(Number 0, String ''x''), (Number 1, Undefined), (Number 2, String ''y'')]"
      absent_row_frame "[(Number 0, Object [(''a'', Number 1)]), (Number 1, Undefined)]"]
    series_x_undefined_y_emits absent_row_frame_emits
  by (simp add: getColumnNames_def absent_row_frame_def del: yields.simps)

subsection \<open>skip, take and window\<close>

lemma skip_discard_yields:
  "yields it xs \<Longrightarrow>
   (case drop n xs of
      [] \<Rightarrow> \<exists>it'. skip_discard it n = Return (False, it')
    | y # ys \<Rightarrow> \<exists>it'. skip_discard it n = Return (True, it') \<and> getCurrent it' = Inr y \<and> yields it' ys)"
proof (induction n arbitrary: it xs)
  case 0
  then show ?case
    by (cases xs) (auto simp: yields_Nil yields_Cons simp del: yields.simps)
next
  case (Suc n)
  show ?case
  proof (cases xs)
    case Nil
    with Suc.prems obtain it' where "moveNext it = Return (False, it')"
      by (auto simp: yields_Nil simp del: yields.simps)
    with Nil show ?thesis by simp
  next
    case (Cons x xs')
    with Suc.prems obtain it' where mv: "moveNext it = Return (True, it')" and tl: "yields it' xs'"
      by (auto simp: yields_Cons simp del: yields.simps)
    from Suc.IH[OF tl] mv Cons show ?thesis by (auto split: list.splits)
  qed
qed

lemma yields_SkipIterator_0: "yields it xs \<Longrightarrow> yields (SkipIterator it 0) xs"
proof (induction xs arbitrary: it)
  case Nil
  then obtain it' where "moveNext it = Return (False, it')" unfolding yields_Nil by blast
  then show ?case by simp
next
  case (Cons x xs)
  from Cons.prems obtain it' where
    mv: "moveNext it = Return (True, it')" and cur: "getCurrent it' = Inr x" and tl: "yields it' xs"
    unfolding yields_Cons by blast
  from Cons.IH[OF tl] mv cur show ?case by simp
qed

lemma yields_SkipIterator: "yields it xs \<Longrightarrow> yields (SkipIterator it n) (drop n xs)"
proof -
  assume a: "yields it xs"
  show ?thesis
  proof (cases "drop n xs")
    case Nil
    with skip_discard_yields[OF a, of n] obtain it' where
      "skip_discard it n = Return (False, it')" by auto
    with Nil show ?thesis by simp
  next
    case (Cons y ys)
    with skip_discard_yields[OF a, of n] obtain it' where
      "skip_discard it n = Return (True, it')" "getCurrent it' = Inr y" "yields it' ys" by auto
    with Cons yields_SkipIterator_0[of it' ys] show ?thesis by simp
  qed
qed

lemma yields_TakeIterator: "yields it xs \<Longrightarrow> yields (TakeIterator it n) (take n xs)"
proof (induction xs arbitrary: it n)
  case Nil
  then obtain it' where "moveNext it = Return (False, it')" unfolding yields_Nil by blast
  then show ?case by simp
next
  case (Cons x xs)
  from Cons.prems obtain it' where
    mv: "moveNext it = Return (True, it')" and cur: "getCurrent it' = Inr x" and tl: "yields it' xs"
    unfolding yields_Cons by blast
  show ?case
  proof (cases n)
    case 0
    then show ?thesis by simp
  next
    case (Suc m)
    with Cons.IH[OF tl, of m] mv cur show ?thesis by simp
  qed
qed

lemma emits_skip_take:
  assumes "emits (Series_getIterator s) xs"
  shows "emits (Series_getIterator (Series_take (Series_skip s k) n)) (take n (drop k xs))"
proof -
  from assms obtain it where it: "Series_getIterator s = Return it" "yields it xs"
    by (rule emitsE)
  from yields_TakeIterator[OF yields_SkipIterator[OF it(2), of k], of n] it(1) show ?thesis
    by (simp add: Series_take_def Series_skip_def emits_from_iterable TakeIterable_def
          SkipIterable_def bindR_def emits_def del: yields.simps)
qed

lemma none_loop_always: "yields it xs \<Longrightarrow> none_loop it (\<lambda>v. Inr True) = Return (xs = [])"
proof (cases xs)
  case Nil
  assume "yields it xs"
  with Nil obtain it' where "moveNext it = Return (False, it')"
    by (auto simp: yields_Nil simp del: yields.simps)
  with Nil show ?thesis by (subst none_loop.simps) simp
next
  case (Cons x xs')
  assume "yields it xs"
  with Cons obtain it' where mv: "moveNext it = Return (True, it')" and cur: "getCurrent it' = Inr x"
    by (auto simp: yields_Cons simp del: yields.simps)
  with Cons show ?thesis by (subst none_loop.simps) simp
qed

lemma Series_none_always:
  assumes "emits (Series_getIterator s) xs"
  shows "Series_none s (Some (\<lambda>v. Inr True)) = Return (xs = [])"
proof -
  from assms obtain it where it: "Series_getIterator s = Return it" "yields it xs"
    by (rule emitsE)
  then show ?thesis by (simp add: Series_none_def bindR_def none_loop_always del: yields.simps)
qed

lemma yields_window_iterator:
  assumes src: "emits (Series_getIterator self) xs" and p: "0 < period"
    and m: "length xs \<le> m * period" "\<forall>j<m. j * period < length xs"
  shows "k \<le> m \<Longrightarrow>
    yields (window_iterator self period (cur, k))
      (map (\<lambda>j. (Number (of_nat j), Series_take (Series_skip self (j * period)) period)) [k..<m])"
proof (induction "m - k" arbitrary: k cur)
  case 0
  then have km: "k = m" by simp
  from m(1) p km have "take period (drop (k * period) xs) = []" by simp
  with Series_none_always[OF emits_skip_take[OF src, of "k * period" period]] km
  show ?case by simp
next
  case (Suc d)
  then have lt: "k < m" by simp
  with m(2) have "k * period < length xs" by blast
  with p have "take period (drop (k * period) xs) \<noteq> []" by simp
  with Series_none_always[OF emits_skip_take[OF src, of "k * period" period]]
  have none: "Series_none (Series_take (Series_skip self (k * period)) period) (Some (\<lambda>v. Inr True))
                = Return False" by simp
  from Suc lt have IH: "yields (window_iterator self period
        (Some (Number (of_nat k), Series_take (Series_skip self (k * period)) period), k + 1))
      (map (\<lambda>j. (Number (of_nat j), Series_take (Series_skip self (j * period)) period)) [k + 1..<m])"
    by simp
  from lt have "[k..<m] = k # [k + 1..<m]" by (simp add: upt_conv_Cons)
  with none IH show ?case by simp
qed

lemma windows_count:
  assumes "0 < period"
  shows "nat \<lceil>rat_of_nat n / rat_of_nat period\<rceil> = (n + period - 1) div period"
proof -
  let ?m = "(n + period - 1) div period"
  have "?m * period = (n + period - 1) - (n + period - 1) mod period"
    by (simp add: minus_mod_eq_div_mult)
  moreover have "(n + period - 1) mod period \<le> period - 1"
    using assms by (simp add: less_Suc_eq_le[symmetric])
  ultimately have a: "n \<le> ?m * period" using assms by linarith
  have b: "?m * period < n + period"
    using div_times_less_eq_dividend[of "n + period - 1" period] assms by linarith
  from a have "rat_of_nat n \<le> rat_of_nat (?m * period)" by (simp only: of_nat_le_iff)
  then have le: "rat_of_nat n / rat_of_nat period \<le> of_int (int ?m)"
    using assms by (simp add: pos_divide_le_eq)
  from b have "rat_of_nat (?m * period) < rat_of_nat (n + period)" by (simp only: of_nat_less_iff)
  then have "(of_int (int ?m) - 1) * rat_of_nat period < rat_of_nat n"
    by (simp add: algebra_simps)
  then have lt: "of_int (int ?m) - 1 < rat_of_nat n / rat_of_nat period"
    using assms by (simp only: pos_less_divide_eq of_nat_0_less_iff)
  from ceiling_unique[OF lt le] show ?thesis by simp
qed

lemma windows_count_bounds:
  assumes "0 < period" and "m = nat \<lceil>rat_of_nat n / rat_of_nat period\<rceil>"
  shows "n \<le> m * period" and "\<forall>j<m. j * period < n"
proof -
  have m: "m = (n + period - 1) div period"
    using assms by (simp add: windows_count)
  have "m * period = (n + period - 1) - (n + period - 1) mod period"
    unfolding m by (simp add: minus_mod_eq_div_mult)
  moreover have "(n + period - 1) mod period \<le> period - 1"
    using assms by (simp add: less_Suc_eq_le[symmetric])
  ultimately show "n \<le> m * period" using assms by linarith
  have b: "m * period < n + period"
    unfolding m using div_times_less_eq_dividend[of "n + period - 1" period] assms by linarith
  show "\<forall>j<m. j * period < n"
  proof (intro allI impI)
    fix j assume "j < m"
    then have "Suc j \<le> m" by simp
    then have "Suc j * period \<le> m * period" by (rule mult_le_mono1)
    with b show "j * period < n" by simp
  qed
qed

text \<open>
  C4. Let the series yield the \<open>n > 0\<close> pairs \<open>xs\<close> and let \<open>period > 0\<close>. The
  cursor of \<open>window(period)\<close> yields \<open>m = \<lceil>n / period\<rceil>\<close> pairs; the \<open>k\<close>-th, counting
  from 0, has index \<open>k\<close> and as value the series \<open>self.skip(k * period).take(period)\<close>,
  which yields the pairs of \<open>xs\<close> at the positions \<open>k * period\<close> up to
  \<open>(k + 1) * period\<close>: exactly \<open>period\<close> of them for every window but the last, and
  all that remain, at least one, for the last.
\<close>

theorem window_segments:
  assumes "emits (Series_getIterator self) xs" and "0 < length xs" and "0 < period"
    and "m = nat \<lceil>rat_of_nat (length xs) / rat_of_nat period\<rceil>"
  shows "emits (Series_getIterator (Series_window self period))
           (map (\<lambda>k. (Number (of_nat k), Series_take (Series_skip self (k * period)) period))
              [0..<m])
    \<and> (\<forall>k<m.
          emits (Series_getIterator (Series_take (Series_skip self (k * period)) period))
            (take period (drop (k * period) xs))
          \<and> (Suc k < m \<longrightarrow> length (take period (drop (k * period) xs)) = period)
          \<and> (Suc k = m \<longrightarrow> take period (drop (k * period) xs) = drop (k * period) xs
                \<and> drop (k * period) xs \<noteq> []))"
proof -
  note b = windows_count_bounds[OF assms(3,4)]
  have "yields (window_iterator self period (None, 0))
      (map (\<lambda>j. (Number (of_nat j), Series_take (Series_skip self (j * period)) period)) [0..<m])"
    by (rule yields_window_iterator[OF assms(1,3) b]) simp
  then have win: "emits (Series_getIterator (Series_window self period))
           (map (\<lambda>k. (Number (of_nat k), Series_take (Series_skip self (k * period)) period))
              [0..<m])"
    by (simp add: Series_window_def emits_from_iterable emits_def del: yields.simps)
  have seg: "emits (Series_getIterator (Series_take (Series_skip self (k * period)) period))
            (take period (drop (k * period) xs))
          \<and> (Suc k < m \<longrightarrow> length (take period (drop (k * period) xs)) = period)
          \<and> (Suc k = m \<longrightarrow> take period (drop (k * period) xs) = drop (k * period) xs
                \<and> drop (k * period) xs \<noteq> [])" if k: "k < m" for k
  proof (intro conjI impI)
    show "emits (Series_getIterator (Series_take (Series_skip self (k * period)) period))
            (take period (drop (k * period) xs))"
      by (rule emits_skip_take[OF assms(1)])
  next
    assume "Suc k < m"
    with b(2) have "Suc k * period < length xs" by blast
    then show "length (take period (drop (k * period) xs)) = period" by simp
  next
    assume "Suc k = m"
    with b(1) have "length xs \<le> k * period + period" by auto
    then show "take period (drop (k * period) xs) = drop (k * period) xs" by simp
  next
    from b(2) k have "k * period < length xs" by blast
    then show "drop (k * period) xs \<noteq> []" by simp
  qed
  from win seg show ?thesis by blast
qed

lemma series_1_to_5_emits:
  "emits (Series_getIterator series_1_to_5)
     [(Number 0, Number 1), (Number 1, Number 2), (Number 2, Number 3), (Number 3, Number 4),
      (Number 4, Number 5)]"
  by (simp add: series_1_to_5_def new_Series_def Series_getIterator_def
        PairsIterable_def createIndexIterable_def createValuesIterable_def CountIterable_def
        CountIterator_def ArrayIterable_def ArrayIterator_def bindR_def emits_def)

theorem window_segments_witness:
  "emits (Series_getIterator (Series_window series_1_to_5 2))
     [(Number 0, Series_take (Series_skip series_1_to_5 0) 2),
      (Number 1, Series_take (Series_skip series_1_to_5 2) 2),
      (Number 2, Series_take (Series_skip series_1_to_5 4) 2)]
   \<and> emits (Series_getIterator (Series_take (Series_skip series_1_to_5 0) 2))
       [(Number 0, Number 1), (Number 1, Number 2)]
   \<and> emits (Series_getIterator (Series_take (Series_skip series_1_to_5 2) 2))
       [(Number 2, Number 3), (Number 3, Number 4)]
   \<and> emits (Series_getIterator (Series_take (Series_skip series_1_to_5 4) 2))
       [(Number 4, Number 5)]"
proof -
  let ?xs = "[(Number 0, Number 1), (Number 1, Number 2), (Number 2, Number 3),
              (Number 3, Number 4), (Number 4, Number 5)]"
  have h2: "0 < length ?xs" by simp
  have h3: "0 < (2::nat)" by simp
  have h4: "(3::nat) = nat \<lceil>rat_of_nat (length ?xs) / rat_of_nat 2\<rceil>"
    using windows_count[of 2 5] by simp
  note w = window_segments[OF series_1_to_5_emits h2 h3 h4]
  from w have a: "emits (Series_getIterator (Series_window series_1_to_5 2))
           (map (\<lambda>k. (Number (of_nat k), Series_take (Series_skip series_1_to_5 (k * 2)) 2))
              [0..<3])" by (rule conjunct1)
  from w have b: "\<forall>k<3. emits (Series_getIterator (Series_take (Series_skip series_1_to_5 (k * 2)) 2))
            (take 2 (drop (k * 2) ?xs))" by blast
  have "[0..<3] = [0, 1, 2::nat]" by (simp add: upt_rec)
  with a have a': "emits (Series_getIterator (Series_window series_1_to_5 2))
     [(Number 0, Series_take (Series_skip series_1_to_5 0) 2),
      (Number 1, Series_take (Series_skip series_1_to_5 2) 2),
      (Number 2, Series_take (Series_skip series_1_to_5 4) 2)]" by simp
  from b[rule_format, of 0] b[rule_format, of 1] b[rule_format, of 2] a'
  show ?thesis by simp
qed

subsection \<open>select, parseInts and parseFloats\<close>

lemma yields_SelectIterator:
  "yields it xs \<Longrightarrow> \<forall>x \<in> set xs. sel x = Inr (g x) \<Longrightarrow>
   yields (SelectIterator it sel) (map g xs)"
proof (induction xs arbitrary: it)
  case Nil
  then obtain it' where "moveNext it = Return (False, it')" unfolding yields_Nil by blast
  then show ?case by simp
next
  case (Cons x xs)
  from Cons.prems(1) obtain it' where
    mv: "moveNext it = Return (True, it')" and cur: "getCurrent it' = Inr x" and tl: "yields it' xs"
    unfolding yields_Cons by blast
  from Cons.prems(2) have "sel x = Inr (g x)" "\<forall>x \<in> set xs. sel x = Inr (g x)" by auto
  with Cons.IH[OF tl] mv cur show ?case by simp
qed

lemma throws_SelectIterator:
  "yields it (pre @ x # rest) \<Longrightarrow> \<forall>y \<in> set pre. sel y = Inr (g y) \<Longrightarrow> sel x = Inl e \<Longrightarrow>
   yields_then_throws (SelectIterator it sel) (map g pre) e"
proof (induction pre arbitrary: it)
  case Nil
  then obtain it' where
    mv: "moveNext it = Return (True, it')" and cur: "getCurrent it' = Inr x"
    by (auto simp: yields_Cons simp del: yields.simps)
  with Nil.prems(3) show ?case by simp
next
  case (Cons y pre)
  from Cons.prems(1) obtain it' where
    mv: "moveNext it = Return (True, it')" and cur: "getCurrent it' = Inr y"
    and tl: "yields it' (pre @ x # rest)"
    by (auto simp: yields_Cons simp del: yields.simps)
  from Cons.prems(2) have "sel y = Inr (g y)" "\<forall>y \<in> set pre. sel y = Inr (g y)" by auto
  with Cons.IH[OF tl _ Cons.prems(3)] mv cur show ?case by simp
qed

lemma toValues_loop_throws:
  "yields_then_throws it xs e \<Longrightarrow> toValues_loop it acc = Throw e"
proof (induction xs arbitrary: it acc)
  case Nil
  then show ?case
    by (subst toValues_loop.simps) (auto split: option.splits sum.splits)
next
  case (Cons x xs)
  from Cons.prems obtain it' where
    mv: "moveNext it = Return (True, it')" and cur: "getCurrent it' = Inr x"
    and tl: "yields_then_throws it' xs e"
    by (auto split: option.splits sum.splits)
  show ?case by (subst toValues_loop.simps) (simp add: mv cur Cons.IH[OF tl])
qed

lemma parse_selector_string_or_absent:
  assumes "v = Undefined \<or> (\<exists>str. v = String str)"
  shows "parseInts_selector parse v i =
           Inr (case v of String str \<Rightarrow> if str = [] then Undefined else parse str | _ \<Rightarrow> Undefined)"
    and "parseFloats_selector parse v i =
           Inr (case v of String str \<Rightarrow> if str = [] then Undefined else parse str | _ \<Rightarrow> Undefined)"
  using assms by (auto simp: parseInts_selector_def parseFloats_selector_def)

lemma parse_selector_other:
  assumes "v \<noteq> Undefined" and "\<forall>str. v \<noteq> String str"
  shows "parseInts_selector parse v i = Inl (AssertionError
           ''Called parseInts on series, expected all values in the series to be strings'')"
    and "parseFloats_selector parse v i = Inl (AssertionError
           ''Called parseFloats on series, expected all values in the series to be strings'')"
  using assms by (cases v; simp add: parseInts_selector_def parseFloats_selector_def)+

lemma emits_Series_select:
  assumes "emits (Series_getIterator s) xs"
    and "\<forall>pair \<in> set xs. sel (snd pair) (fst pair) = Inr (g pair)"
  shows "emits (Series_getIterator (Series_select s sel)) (map (\<lambda>pair. (fst pair, g pair)) xs)"
proof -
  from assms(1) obtain it where it: "Series_getIterator s = Return it" "yields it xs"
    by (rule emitsE)
  have "yields (SelectIterator it (\<lambda>pair. case sel (snd pair) (fst pair) of
                 Inl e \<Rightarrow> Inl e | Inr newValue \<Rightarrow> Inr (fst pair, newValue)))
          (map (\<lambda>pair. (fst pair, g pair)) xs)"
    by (rule yields_SelectIterator[OF it(2)]) (simp add: assms(2))
  with it(1) show ?thesis
    by (simp add: Series_select_def emits_from_iterable SelectValuesIterable_def bindR_def
          emits_def del: yields.simps)
qed

lemma throws_Series_select:
  assumes "emits (Series_getIterator s) (pre @ bad # rest)"
    and "\<forall>pair \<in> set pre. sel (snd pair) (fst pair) = Inr (g pair)"
    and "sel (snd bad) (fst bad) = Inl e"
  shows "emits_then_throws (Series_getIterator (Series_select s sel))
           (map (\<lambda>pair. (fst pair, g pair)) pre) e"
    and "\<exists>it. Series_getIterator (Series_select s sel) = Return it"
proof -
  from assms(1) obtain it where it: "Series_getIterator s = Return it" "yields it (pre @ bad # rest)"
    by (rule emitsE)
  have "yields_then_throws (SelectIterator it (\<lambda>pair. case sel (snd pair) (fst pair) of
                 Inl e \<Rightarrow> Inl e | Inr newValue \<Rightarrow> Inr (fst pair, newValue)))
          (map (\<lambda>pair. (fst pair, g pair)) pre) e"
    by (rule throws_SelectIterator[OF it(2)]) (simp_all add: assms(2,3))
  with it(1) show "emits_then_throws (Series_getIterator (Series_select s sel))
           (map (\<lambda>pair. (fst pair, g pair)) pre) e"
    by (simp add: Series_select_def emits_from_iterable SelectValuesIterable_def bindR_def
          emits_then_throws_def del: yields_then_throws.simps)
  from it(1) show "\<exists>it. Series_getIterator (Series_select s sel) = Return it"
    by (simp add: Series_select_def emits_from_iterable SelectValuesIterable_def bindR_def)
qed

lemma Series_toValues_throws:
  assumes "emits_then_throws (Series_getIterator s) xs e"
  shows "Series_toValues s = Throw e"
proof -
  from assms obtain it where "Series_getIterator s = Return it" "yields_then_throws it xs e"
    by (auto simp: emits_then_throws_def split: option.splits sum.splits)
  then show ?thesis
    by (simp add: Series_toValues_def bindR_def toValues_loop_throws del: yields_then_throws.simps)
qed

text \<open>
  C6. \<open>parseInts\<close> and \<open>parseFloats\<close> work element by element and keep each index.
  Over a series whose values are strings or \<open>undefined\<close>, \<open>undefined\<close> stays
  \<open>undefined\<close>, the empty string becomes \<open>undefined\<close> and every other string becomes
  what \<open>parseInt\<close> (\<open>parseFloat\<close>) makes of it. When the series holds a value that is
  neither, the call itself and \<open>getIterator()\<close> still return; the pairs before that
  value are yielded, parsed, and the step that reaches the value throws the assertion's
  error, so that \<open>toValues()\<close> throws it.
\<close>

theorem parse_elementwise:
  "(emits (Series_getIterator s) xs
      \<and> (\<forall>pair \<in> set xs. snd pair = Undefined \<or> (\<exists>str. snd pair = String str)) \<longrightarrow>
      emits (Series_getIterator (Series_parseInts parseInt s))
        (map (\<lambda>pair. (fst pair, case snd pair of
                 String str \<Rightarrow> if str = [] then Undefined else parseInt str
               | _ \<Rightarrow> Undefined)) xs)
      \<and> emits (Series_getIterator (Series_parseFloats parseFloat s))
        (map (\<lambda>pair. (fst pair, case snd pair of
                 String str \<Rightarrow> if str = [] then Undefined else parseFloat str
               | _ \<Rightarrow> Undefined)) xs))
   \<and> (emits (Series_getIterator s2) (pre @ bad # rest)
      \<and> (\<forall>pair \<in> set pre. snd pair = Undefined \<or> (\<exists>str. snd pair = String str))
      \<and> snd bad \<noteq> Undefined \<and> (\<forall>str. snd bad \<noteq> String str) \<longrightarrow>
      (\<exists>it. Series_getIterator (Series_parseInts parseInt s2) = Return it)
      \<and> emits_then_throws (Series_getIterator (Series_parseInts parseInt s2))
          (map (\<lambda>pair. (fst pair, case snd pair of
                   String str \<Rightarrow> if str = [] then Undefined else parseInt str
                 | _ \<Rightarrow> Undefined)) pre)
          (AssertionError
             ''Called parseInts on series, expected all values in the series to be strings'')
      \<and> Series_toValues (Series_parseInts parseInt s2) = Throw (AssertionError
             ''Called parseInts on series, expected all values in the series to be strings'')
      \<and> (\<exists>it. Series_getIterator (Series_parseFloats parseFloat s2) = Return it)
      \<and> emits_then_throws (Series_getIterator (Series_parseFloats parseFloat s2))
          (map (\<lambda>pair. (fst pair, case snd pair of
                   String str \<Rightarrow> if str = [] then Undefined else parseFloat str
                 | _ \<Rightarrow> Undefined)) pre)
          (AssertionError
             ''Called parseFloats on series, expected all values in the series to be strings'')
      \<and> Series_toValues (Series_parseFloats parseFloat s2) = Throw (AssertionError
             ''Called parseFloats on series, expected all values in the series to be strings''))"
proof (intro conjI impI)
  assume a: "emits (Series_getIterator s) xs
      \<and> (\<forall>pair \<in> set xs. snd pair = Undefined \<or> (\<exists>str. snd pair = String str))"
  then have src: "emits (Series_getIterator s) xs" by simp
  show "emits (Series_getIterator (Series_parseInts parseInt s))
        (map (\<lambda>pair. (fst pair, case snd pair of
                 String str \<Rightarrow> if str = [] then Undefined else parseInt str
               | _ \<Rightarrow> Undefined)) xs)"
    unfolding Series_parseInts_def
    by (rule emits_Series_select[OF src]) (use a in \<open>simp add: parse_selector_string_or_absent\<close>)
  show "emits (Series_getIterator (Series_parseFloats parseFloat s))
        (map (\<lambda>pair. (fst pair, case snd pair of
                 String str \<Rightarrow> if str = [] then Undefined else parseFloat str
               | _ \<Rightarrow> Undefined)) xs)"
    unfolding Series_parseFloats_def
    by (rule emits_Series_select[OF src]) (use a in \<open>simp add: parse_selector_string_or_absent\<close>)
next
  assume a: "emits (Series_getIterator s2) (pre @ bad # rest)
      \<and> (\<forall>pair \<in> set pre. snd pair = Undefined \<or> (\<exists>str. snd pair = String str))
      \<and> snd bad \<noteq> Undefined \<and> (\<forall>str. snd bad \<noteq> String str)"
  then have src: "emits (Series_getIterator s2) (pre @ bad # rest)"
    and good: "\<forall>pair \<in> set pre. snd pair = Undefined \<or> (\<exists>str. snd pair = String str)"
    and bad: "snd bad \<noteq> Undefined" "\<forall>str. snd bad \<noteq> String str" by simp_all
  have gi: "\<forall>pair \<in> set pre. parseInts_selector parseInt (snd pair) (fst pair) =
      Inr (case snd pair of String str \<Rightarrow> if str = [] then Undefined else parseInt str
           | _ \<Rightarrow> Undefined)"
    using good by (simp add: parse_selector_string_or_absent)
  have gf: "\<forall>pair \<in> set pre. parseFloats_selector parseFloat (snd pair) (fst pair) =
      Inr (case snd pair of String str \<Rightarrow> if str = [] then Undefined else parseFloat str
           | _ \<Rightarrow> Undefined)"
    using good by (simp add: parse_selector_string_or_absent)
  note ti = throws_Series_select[OF src gi parse_selector_other(1)[OF bad]]
  note tf = throws_Series_select[OF src gf parse_selector_other(2)[OF bad]]
  show "\<exists>it. Series_getIterator (Series_parseInts parseInt s2) = Return it"
    unfolding Series_parseInts_def by (rule ti(2))
  show "emits_then_throws (Series_getIterator (Series_parseInts parseInt s2))
          (map (\<lambda>pair. (fst pair, case snd pair of
                   String str \<Rightarrow> if str = [] then Undefined else parseInt str
                 | _ \<Rightarrow> Undefined)) pre)
          (AssertionError
             ''Called parseInts on series, expected all values in the series to be strings'')"
    unfolding Series_parseInts_def by (rule ti(1))
  then show "Series_toValues (Series_parseInts parseInt s2) = Throw (AssertionError
             ''Called parseInts on series, expected all values in the series to be strings'')"
    by (rule Series_toValues_throws)
  show "\<exists>it. Series_getIterator (Series_parseFloats parseFloat s2) = Return it"
    unfolding Series_parseFloats_def by (rule tf(2))
  show "emits_then_throws (Series_getIterator (Series_parseFloats parseFloat s2))
          (map (\<lambda>pair. (fst pair, case snd pair of
                   String str \<Rightarrow> if str = [] then Undefined else parseFloat str
                 | _ \<Rightarrow> Undefined)) pre)
          (AssertionError
             ''Called parseFloats on series, expected all values in the series to be strings'')"
    unfolding Series_parseFloats_def by (rule tf(1))
  then show "Series_toValues (Series_parseFloats parseFloat s2) = Throw (AssertionError
             ''Called parseFloats on series, expected all values in the series to be strings'')"
    by (rule Series_toValues_throws)
qed

lemma series_of_strings_emits:
  "emits (Series_getIterator series_of_strings)
     [(Number 0, String ''1''), (Number 1, String []), (Number 2, Undefined),
      (Number 3, String ''100'')]"
  by (simp add: series_of_strings_def new_Series_def Series_getIterator_def
        PairsIterable_def createIndexIterable_def createValuesIterable_def CountIterable_def
        CountIterator_def ArrayIterable_def ArrayIterator_def bindR_def emits_def)

lemma series_with_number_emits:
  "emits (Series_getIterator series_with_number)
     ([(Number 0, String ''1'')] @ (Number 1, Number 5) # [(Number 2, String ''7'')])"
  by (simp add: series_with_number_def new_Series_def Series_getIterator_def
        PairsIterable_def createIndexIterable_def createValuesIterable_def CountIterable_def
        CountIterator_def ArrayIterable_def ArrayIterator_def bindR_def emits_def)

lemma parse_decimal_values:
  "parse_decimal ''1'' = Number 1" "parse_decimal ''100'' = Number 100"
  by (simp_all add: parse_decimal_def)

theorem parse_elementwise_witness:
  "emits (Series_getIterator (Series_parseInts parse_decimal series_of_strings))
     [(Number 0, Number 1), (Number 1, Undefined), (Number 2, Undefined), (Number 3, Number 100)]
   \<and> emits (Series_getIterator (Series_parseFloats parse_decimal series_of_strings))
     [(Number 0, Number 1), (Number 1, Undefined), (Number 2, Undefined), (Number 3, Number 100)]
   \<and> emits_then_throws (Series_getIterator (Series_parseInts parse_decimal series_with_number))
       [(Number 0, Number 1)]
       (AssertionError
          ''Called parseInts on series, expected all values in the series to be strings'')
   \<and> Series_toValues (Series_parseInts parse_decimal series_with_number) = Throw (AssertionError
          ''Called parseInts on series, expected all values in the series to be strings'')
   \<and> Series_toValues (Series_parseFloats parse_decimal series_with_number) = Throw (AssertionError
          ''Called parseFloats on series, expected all values in the series to be strings'')"
  using parse_elementwise[of series_of_strings
      "[(Number 0, String ''1''), (Number 1, String []), (Number 2, Undefined),
        (Number 3, String ''100'')]" parse_decimal parse_decimal
      series_with_number "[(Number 0, String ''1'')]" "(Number 1, Number 5)"
      "[(Number 2, String ''7'')]"]
    series_of_strings_emits series_with_number_emits
  by (simp add: parse_decimal_values del: yields.simps yields_then_throws.simps)

subsection \<open>DataFrame.select\<close>

lemma select_row_object:
  "selector (snd pair) (fst pair) = Inr v \<Longrightarrow> isObject v \<Longrightarrow>
   select_row selector pair = Inr (fst pair, v)"
  by (simp add: select_row_def)

lemma select_row_not_object:
  "selector (snd pair) (fst pair) = Inr v \<Longrightarrow> \<not> isObject v \<Longrightarrow>
   select_row selector pair = Inl select_error"
  by (simp add: select_row_def)

lemma DataFrame_select_empty:
  assumes "emits (getIterator df) []"
  shows "DataFrame_select df selector =
     Return \<lparr>columnNames = [],
             getIterator = bindR (getIterator df) (\<lambda>iterator.
                             Return (SelectIterator iterator (select_row selector)))\<rparr>"
proof -
  from assms obtain it it' where "getIterator df = Return it" "moveNext it = Return (False, it')"
    by (auto elim!: emitsE simp: yields_Nil simp del: yields.simps)
  then show ?thesis
    by (simp add: DataFrame_select_def new_DataFrame_def determineColumnNamesFromPairsIterable_def
          bindR_def)
qed

lemma DataFrame_select_first_row:
  assumes "emits (getIterator df) (first # rest)"
  shows "selector (snd first) (fst first) = Inr (Object props) \<Longrightarrow>
     DataFrame_select df selector =
       Return \<lparr>columnNames = map fst props,
               getIterator = bindR (getIterator df) (\<lambda>iterator.
                               Return (SelectIterator iterator (select_row selector)))\<rparr>"
    and "selector (snd first) (fst first) = Inr v \<Longrightarrow> \<not> isObject v \<Longrightarrow>
     DataFrame_select df selector = Throw select_error"
proof -
  from assms obtain it it' where it: "getIterator df = Return it"
    "moveNext it = Return (True, it')" "getCurrent it' = Inr first"
    by (auto elim!: emitsE simp: yields_Cons simp del: yields.simps)
  show "selector (snd first) (fst first) = Inr (Object props) \<Longrightarrow>
     DataFrame_select df selector =
       Return \<lparr>columnNames = map fst props,
               getIterator = bindR (getIterator df) (\<lambda>iterator.
                               Return (SelectIterator iterator (select_row selector)))\<rparr>"
    using it
    by (simp add: DataFrame_select_def new_DataFrame_def determineColumnNamesFromPairsIterable_def
          bindR_def select_row_def isObject_def Object_keys_def)
  show "selector (snd first) (fst first) = Inr v \<Longrightarrow> \<not> isObject v \<Longrightarrow>
     DataFrame_select df selector = Throw select_error"
    using it
    by (simp add: DataFrame_select_def new_DataFrame_def determineColumnNamesFromPairsIterable_def
          bindR_def select_row_def)
qed

lemma DataFrame_select_getIterator:
  assumes "DataFrame_select df selector = Return df'"
  shows "getIterator df' = bindR (getIterator df) (\<lambda>iterator.
                             Return (SelectIterator iterator (select_row selector)))"
  using assms
  by (auto simp: DataFrame_select_def new_DataFrame_def bindR_def
      split: option.splits sum.splits)

lemma DataFrame_toPairs_loop_throws:
  "yields_then_throws it xs e \<Longrightarrow> DataFrame_toPairs_loop it acc = Throw e"
proof (induction xs arbitrary: it acc)
  case Nil
  then show ?case
    by (subst DataFrame_toPairs_loop.simps) (auto split: option.splits sum.splits)
next
  case (Cons x xs)
  from Cons.prems obtain it' where
    mv: "moveNext it = Return (True, it')" and cur: "getCurrent it' = Inr x"
    and tl: "yields_then_throws it' xs e"
    by (auto split: option.splits sum.splits)
  show ?case by (subst DataFrame_toPairs_loop.simps) (simp add: mv cur Cons.IH[OF tl])
qed

text \<open>
  C9, as the code has it. \<open>select\<close> builds the new data-frame without column names, so
  the constructor asks the new pipeline for its first row to read the column names off
  it: over an empty data-frame \<open>select\<close> returns a data-frame without columns; when the
  selector returns an object for the first row, \<open>select\<close> returns a data-frame with
  that object's keys as columns; when it returns something else for the first row,
  \<open>select\<close> itself throws. A data-frame that \<open>select\<close> has returned yields, for each
  row up to the first for which the selector does not return an object, the pair of the
  row's index and the selector's result, and throws at that row; when there is no such
  row it yields such a pair for every row.
\<close>

theorem select_checks_rows:
  "(emits (getIterator dfE) [] \<longrightarrow>
      (\<exists>df'. DataFrame_select dfE selE = Return df' \<and> columnNames df' = []))
   \<and> (emits (getIterator dfA) (firstA # restA)
        \<and> selA (snd firstA) (fst firstA) = Inr (Object props) \<longrightarrow>
      (\<exists>df'. DataFrame_select dfA selA = Return df' \<and> columnNames df' = map fst props))
   \<and> (emits (getIterator dfB) (firstB # restB)
        \<and> selB (snd firstB) (fst firstB) = Inr vB \<and> \<not> isObject vB \<longrightarrow>
      DataFrame_select dfB selB = Throw select_error)
   \<and> (DataFrame_select dfC selC = Return dfC' \<and> emits (getIterator dfC) (pre @ bad # restC)
        \<and> (\<forall>pair \<in> set pre. selC (snd pair) (fst pair) = Inr (f pair) \<and> isObject (f pair))
        \<and> selC (snd bad) (fst bad) = Inr vC \<and> \<not> isObject vC \<longrightarrow>
      emits_then_throws (getIterator dfC') (map (\<lambda>pair. (fst pair, f pair)) pre) select_error
      \<and> DataFrame_toPairs dfC' = Throw select_error)
   \<and> (DataFrame_select dfD selD = Return dfD' \<and> emits (getIterator dfD) xs
        \<and> (\<forall>pair \<in> set xs. selD (snd pair) (fst pair) = Inr (g pair) \<and> isObject (g pair)) \<longrightarrow>
      emits (getIterator dfD') (map (\<lambda>pair. (fst pair, g pair)) xs))"
proof (intro conjI impI)
  assume "emits (getIterator dfE) []"
  from DataFrame_select_empty[OF this, of selE]
  show "\<exists>df'. DataFrame_select dfE selE = Return df' \<and> columnNames df' = []" by simp
next
  assume a: "emits (getIterator dfA) (firstA # restA)
        \<and> selA (snd firstA) (fst firstA) = Inr (Object props)"
  then have "emits (getIterator dfA) (firstA # restA)" by simp
  from DataFrame_select_first_row(1)[OF this, of selA props] a
  show "\<exists>df'. DataFrame_select dfA selA = Return df' \<and> columnNames df' = map fst props" by simp
next
  assume a: "emits (getIterator dfB) (firstB # restB)
        \<and> selB (snd firstB) (fst firstB) = Inr vB \<and> \<not> isObject vB"
  then have "emits (getIterator dfB) (firstB # restB)" by simp
  from DataFrame_select_first_row(2)[OF this, of selB vB] a
  show "DataFrame_select dfB selB = Throw select_error" by simp
next
  assume a: "DataFrame_select dfC selC = Return dfC' \<and> emits (getIterator dfC) (pre @ bad # restC)
        \<and> (\<forall>pair \<in> set pre. selC (snd pair) (fst pair) = Inr (f pair) \<and> isObject (f pair))
        \<and> selC (snd bad) (fst bad) = Inr vC \<and> \<not> isObject vC"
  then have "emits (getIterator dfC) (pre @ bad # restC)" by simp
  then obtain it where it: "getIterator dfC = Return it" "yields it (pre @ bad # restC)"
    by (rule emitsE)
  from a have gi: "getIterator dfC' = bindR (getIterator dfC) (\<lambda>iterator.
                             Return (SelectIterator iterator (select_row selC)))"
    by (simp add: DataFrame_select_getIterator)
  have thr: "yields_then_throws (SelectIterator it (select_row selC))
          (map (\<lambda>pair. (fst pair, f pair)) pre) select_error"
    by (rule throws_SelectIterator[OF it(2)])
       (use a in \<open>simp_all add: select_row_object select_row_not_object\<close>)
  with gi it(1) show "emits_then_throws (getIterator dfC')
      (map (\<lambda>pair. (fst pair, f pair)) pre) select_error"
    by (simp add: emits_then_throws_def bindR_def del: yields_then_throws.simps)
  from thr gi it(1) show "DataFrame_toPairs dfC' = Throw select_error"
    by (simp add: DataFrame_toPairs_def bindR_def DataFrame_toPairs_loop_throws
          del: yields_then_throws.simps)
next
  assume a: "DataFrame_select dfD selD = Return dfD' \<and> emits (getIterator dfD) xs
        \<and> (\<forall>pair \<in> set xs. selD (snd pair) (fst pair) = Inr (g pair) \<and> isObject (g pair))"
  then have "emits (getIterator dfD) xs" by simp
  then obtain it where it: "getIterator dfD = Return it" "yields it xs"
    by (rule emitsE)
  from a have gi: "getIterator dfD' = bindR (getIterator dfD) (\<lambda>iterator.
                             Return (SelectIterator iterator (select_row selD)))"
    by (simp add: DataFrame_select_getIterator)
  have "yields (SelectIterator it (select_row selD)) (map (\<lambda>pair. (fst pair, g pair)) xs)"
    by (rule yields_SelectIterator[OF it(2)]) (use a in \<open>simp add: select_row_object\<close>)
  with gi it(1) show "emits (getIterator dfD') (map (\<lambda>pair. (fst pair, g pair)) xs)"
    by (simp add: emits_def bindR_def del: yields.simps)
qed

lemma two_rows_frame_emits:
  "emits (getIterator two_rows_frame)
     [(Number 0, Object [(''a'', Number 1)]), (Number 1, Object [(''a'', Number 2)])]"
  by (simp add: two_rows_frame_def emits_ArrayIterable)

theorem select_checks_rows_counterexample:
  "new_DataFrame (Some two_rows_config) = Return two_rows_frame
   \<and> DataFrame_select two_rows_frame select_five = Throw select_error"
proof -
  have "new_DataFrame (Some two_rows_config) = Return two_rows_frame"
    by (simp add: new_DataFrame_def two_rows_config_def two_rows_frame_def)
  moreover have "DataFrame_select two_rows_frame select_five = Throw select_error"
    by (rule DataFrame_select_first_row(2)[OF two_rows_frame_emits, of _ "Number 5"])
       (simp_all add: select_five_def isObject_def)
  ultimately show ?thesis by simp
qed

theorem select_checks_rows_witness:
  "(\<exists>df'. DataFrame_select empty_frame select_five = Return df' \<and> columnNames df' = [])
   \<and> (\<exists>df'. DataFrame_select two_rows_frame select_row_itself = Return df'
          \<and> columnNames df' = [''a'']
          \<and> emits (getIterator df')
               [(Number 0, Object [(''a'', Number 1)]), (Number 1, Object [(''a'', Number 2)])])
   \<and> DataFrame_select two_rows_frame select_five = Throw select_error
   \<and> (\<exists>df'. DataFrame_select two_rows_frame select_five_after_first = Return df'
          \<and> emits_then_throws (getIterator df') [(Number 0, Object [(''a'', Number 1)])]
               select_error
          \<and> DataFrame_toPairs df' = Throw select_error)"
proof -
  let ?r0 = "(Number 0, Object [(''a'', Number 1)])"
  let ?r1 = "(Number 1, Object [(''a'', Number 2)])"
  have e: "emits (getIterator empty_frame) []"
    by (simp add: empty_frame_def emits_def)
  have r: "emits (getIterator two_rows_frame) (?r0 # [?r1])"
    by (rule two_rows_frame_emits)
  have r': "emits (getIterator two_rows_frame) ([?r0] @ ?r1 # [])"
    using two_rows_frame_emits by simp
  note T1 = select_checks_rows[THEN conjunct1, rule_format]
  note T2 = select_checks_rows[THEN conjunct2, THEN conjunct1, rule_format]
  note T3 = select_checks_rows[THEN conjunct2, THEN conjunct2, THEN conjunct1, rule_format]
  note T4 = select_checks_rows[THEN conjunct2, THEN conjunct2, THEN conjunct2, THEN conjunct1,
      rule_format]
  note T5 = select_checks_rows[THEN conjunct2, THEN conjunct2, THEN conjunct2, THEN conjunct2,
      rule_format]
  have c1: "\<exists>df'. DataFrame_select empty_frame select_five = Return df' \<and> columnNames df' = []"
    using T1[where dfE = empty_frame and selE = select_five] e by simp
  have "\<exists>df'. DataFrame_select two_rows_frame select_row_itself = Return df'
          \<and> columnNames df' = map fst [(''a'', Number 1)]"
    using T2[where dfA = two_rows_frame and firstA = ?r0 and restA = "[?r1]"
        and selA = select_row_itself and props = "[(''a'', Number 1)]"] r
    by (simp add: select_row_itself_def)
  then obtain dfa where dfa: "DataFrame_select two_rows_frame select_row_itself = Return dfa"
    "columnNames dfa = [''a'']" by auto
  have "emits (getIterator dfa) (map (\<lambda>pair. (fst pair, snd pair)) [?r0, ?r1])"
    using T5[where dfD = two_rows_frame and selD = select_row_itself
        and dfD' = dfa and xs = "[?r0, ?r1]" and g = snd] dfa(1) two_rows_frame_emits
    by (simp add: select_row_itself_def isObject_def)
  with dfa have c2: "\<exists>df'. DataFrame_select two_rows_frame select_row_itself = Return df'
          \<and> columnNames df' = [''a''] \<and> emits (getIterator df') [?r0, ?r1]"
    by (intro exI[of _ dfa]) simp
  have c3: "DataFrame_select two_rows_frame select_five = Throw select_error"
    using T3[where dfB = two_rows_frame and firstB = ?r0 and restB = "[?r1]"
        and selB = select_five and vB = "Number 5"] r
    by (simp add: select_five_def isObject_def)
  have "\<exists>df'. DataFrame_select two_rows_frame select_five_after_first = Return df'
          \<and> columnNames df' = map fst [(''a'', Number 1)]"
    using T2[where dfA = two_rows_frame and firstA = ?r0 and restA = "[?r1]"
        and selA = select_five_after_first and props = "[(''a'', Number 1)]"] r
    by (simp add: select_five_after_first_def)
  then obtain dfc where dfc: "DataFrame_select two_rows_frame select_five_after_first = Return dfc"
    by auto
  have "emits_then_throws (getIterator dfc) (map (\<lambda>pair. (fst pair, snd pair)) [?r0]) select_error
      \<and> DataFrame_toPairs dfc = Throw select_error"
    using T4[where dfC = two_rows_frame and selC = select_five_after_first
        and dfC' = dfc and pre = "[?r0]" and bad = ?r1 and restC = "[]" and f = snd
        and vC = "Number 5"] dfc r'
    by (simp add: select_five_after_first_def isObject_def)
  with dfc have c4: "\<exists>df'. DataFrame_select two_rows_frame select_five_after_first = Return df'
          \<and> emits_then_throws (getIterator df') [?r0] select_error
          \<and> DataFrame_toPairs df' = Throw select_error"
    by (intro exI[of _ dfc]) simp
  from c1 c2 c3 c4 show ?thesis by blast
qed

subsection \<open>join\<close>

lemma Series_join_returns:
  assumes "Series_join outer inner outerKeySelector innerKeySelector resultSelector = Return df"
  shows "df = \<lparr>columnNames = [], getIterator = Return EmptyIterator\<rparr>"
  using assms
  by (auto simp: Series_join_def new_DataFrame_def bindR_def Let_def
      split: option.splits sum.splits)

lemma Series_join_no_records:
  assumes "Series_join outer inner outerKeySelector innerKeySelector resultSelector = Return df"
  shows "DataFrame_toPairs df = Return []"
  unfolding Series_join_returns[OF assms] DataFrame_toPairs_def
  by (subst DataFrame_toPairs_loop.simps) (simp add: bindR_def)

lemma series_1_2_toPairs:
  "Series_toPairs series_1_2 = Return [(Number 0, Number 1), (Number 1, Number 2)]"
proof -
  have "emits (Series_getIterator series_1_2) [(Number 0, Number 1), (Number 1, Number 2)]"
    by (simp add: series_1_2_def new_Series_def Series_getIterator_def
        PairsIterable_def createIndexIterable_def createValuesIterable_def CountIterable_def
        CountIterator_def ArrayIterable_def ArrayIterator_def bindR_def emits_def)
  then obtain it where "Series_getIterator series_1_2 = Return it"
    "yields it [(Number 0, Number 1), (Number 1, Number 2)]" by (rule emitsE)
  then show ?thesis
    by (simp add: Series_toPairs_def bindR_def toPairs_loop_yields del: yields.simps)
qed

lemma series_2_2_toPairs:
  "Series_toPairs series_2_2 = Return [(Number 0, Number 2), (Number 1, Number 2)]"
proof -
  have "emits (Series_getIterator series_2_2) [(Number 0, Number 2), (Number 1, Number 2)]"
    by (simp add: series_2_2_def new_Series_def Series_getIterator_def
        PairsIterable_def createIndexIterable_def createValuesIterable_def CountIterable_def
        CountIterator_def ArrayIterable_def ArrayIterator_def bindR_def emits_def)
  then obtain it where "Series_getIterator series_2_2 = Return it"
    "yields it [(Number 0, Number 2), (Number 1, Number 2)]" by (rule emitsE)
  then show ?thesis
    by (simp add: Series_toPairs_def bindR_def toPairs_loop_yields del: yields.simps)
qed

text \<open>
  C1, at \<open>new Series({values: [1, 2]}).join(new Series({values: [2, 2]}), ...)\<close>. The
  outer value 2 has the key of both inner values, so nested comparison gives two
  records. \<open>join\<close> computes them and passes them to the DataFrame constructor in the
  field \<open>values\<close>, which the constructor does not read: the data-frame that \<open>join\<close>
  returns has no columns and no pairs.
\<close>

theorem join_returns_empty_frame:
  "Series_toPairs series_1_2 = Return [(Number 0, Number 1), (Number 1, Number 2)]
   \<and> Series_toPairs series_2_2 = Return [(Number 0, Number 2), (Number 1, Number 2)]
   \<and> [outer_inner_record a b. a \<leftarrow> [Number 1, Number 2], b \<leftarrow> [Number 2, Number 2],
        key_is_value a Undefined = key_is_value b Undefined]
      = [Object [(''outer'', Number 2), (''inner'', Number 2)],
         Object [(''outer'', Number 2), (''inner'', Number 2)]]
   \<and> Series_join series_1_2 series_2_2 key_is_value key_is_value outer_inner_record
      = Return \<lparr>columnNames = [], getIterator = Return EmptyIterator\<rparr>
   \<and> DataFrame_toPairs \<lparr>columnNames = [], getIterator = Return EmptyIterator\<rparr> = Return []"
proof -
  have j: "Series_join series_1_2 series_2_2 key_is_value key_is_value outer_inner_record
      = Return \<lparr>columnNames = [], getIterator = Return EmptyIterator\<rparr>"
    by (simp add: Series_join_def series_1_2_toPairs series_2_2_toPairs bindR_def
          new_DataFrame_def Let_def)
  from Series_join_no_records[OF j] j series_1_2_toPairs series_2_2_toPairs
  show ?thesis by (simp add: key_is_value_def outer_inner_record_def)
qed

end
